theory Spec2Isabelle
  imports Complex_Main
begin

section \<open>JavaScript values used by the stores\<close>

text \<open>
  \<^verbatim>\<open>activeProjectId\<close> is declared \<^verbatim>\<open>string | null\<close>. Reading an array out of
  range (\<^verbatim>\<open>newTabOrder[newIndex]\<close> in \<^verbatim>\<open>forceCloseProject\<close>) yields
  \<^verbatim>\<open>undefined\<close>, which is kept apart from \<^verbatim>\<open>null\<close> because \<^verbatim>\<open>!==\<close> tells them apart.
\<close>

datatype jsid = Null | Undefined | Id string

text \<open>JavaScript truthiness of an id: \<^verbatim>\<open>null\<close>, \<^verbatim>\<open>undefined\<close> and the empty string are falsy.\<close>

fun truthy :: "jsid \<Rightarrow> bool" where
  "truthy Null = False"
| "truthy Undefined = False"
| "truthy (Id s) = (s \<noteq> [])"

text \<open>\<^verbatim>\<open>Array.prototype.indexOf\<close>: the first position of the element, or \<^verbatim>\<open>-1\<close>.\<close>

fun indexOf :: "string list \<Rightarrow> string \<Rightarrow> int" where
  "indexOf [] x = -1"
| "indexOf (y # ys) x =
     (if y = x then 0 else (let r = indexOf ys x in if r < 0 then -1 else r + 1))"

text \<open>\<^verbatim>\<open>xs[i]\<close> on an array of ids: \<^verbatim>\<open>undefined\<close> outside the array.\<close>

definition js_index :: "string list \<Rightarrow> int \<Rightarrow> jsid" where
  "js_index xs i = (if 0 \<le> i \<and> i < int (length xs) then Id (xs ! nat i) else Undefined)"

subsection \<open>A JavaScript \<^verbatim>\<open>Map\<close> in insertion order\<close>

fun Map_get :: "('k \<times> 'v) list \<Rightarrow> 'k \<Rightarrow> 'v option" where
  "Map_get [] k = None"
| "Map_get ((k', v) # m) k = (if k' = k then Some v else Map_get m k)"

text \<open>\<^verbatim>\<open>Map.set\<close> keeps the position of a key that is present and appends a new key.\<close>

fun Map_set :: "('k \<times> 'v) list \<Rightarrow> 'k \<Rightarrow> 'v \<Rightarrow> ('k \<times> 'v) list" where
  "Map_set [] k v = [(k, v)]"
| "Map_set ((k', v') # m) k v = (if k' = k then (k, v) # m else (k', v') # Map_set m k v)"

fun Map_delete :: "('k \<times> 'v) list \<Rightarrow> 'k \<Rightarrow> ('k \<times> 'v) list" where
  "Map_delete [] k = []"
| "Map_delete ((k', v') # m) k = (if k' = k then Map_delete m k else (k', v') # Map_delete m k)"

definition Map_keys :: "('k \<times> 'v) list \<Rightarrow> 'k list" where
  "Map_keys m = map fst m"

section \<open>Data model of the projects store (\<^verbatim>\<open>projectsStore\<close>)\<close>

record base_image =
  img_data :: string
  img_width :: real
  img_height :: real
  img_format :: string

text \<open>
  A layer as the stores and the renderer read it. The type lives in \<^verbatim>\<open>../types\<close>;
  optional fields are options.
\<close>

record layer =
  l_id :: string
  l_name :: string
  l_type :: string
  l_visible :: bool
  l_opacity :: real
  l_order :: int
  l_imageData :: string
  l_originalImageData :: "string option"
  l_x :: "real option"
  l_y :: "real option"
  l_width :: "real option"
  l_height :: "real option"
  l_featherRadius :: "real option"
  l_polygonPoints :: "(real \<times> real) list option"

record history_snapshot =
  hs_layers :: "layer list"
  hs_activeLayerId :: "string option"

text \<open>\<^verbatim>\<open>ProjectSnapshot\<close>, field for field.\<close>

record project_snapshot =
  sid :: string
  sname :: string
  createdAt :: nat
  baseImage :: "base_image option"
  imagePath :: "string option"
  zoom :: real
  panX :: real
  panY :: real
  layers :: "layer list"
  activeLayerId :: "string option"
  historyPast :: "history_snapshot list"
  historyFuture :: "history_snapshot list"
  isDirty :: bool

text \<open>The fields of the live stores that \<^verbatim>\<open>captureCurrentState\<close> and the subscriptions read.\<close>

record canvas_state =
  cv_baseImage :: "base_image option"
  cv_imagePath :: "string option"
  cv_zoom :: real
  cv_panX :: real
  cv_panY :: real

record layer_state =
  ly_layers :: "layer list"
  ly_activeLayerId :: "string option"

record history_state =
  past :: "history_snapshot list"
  future :: "history_snapshot list"
  h_isDirty :: bool

text \<open>The selection store is only ever cleared here; its state is an opaque value.\<close>

type_synonym selection_state = "string option"

text \<open>
  The actions of the canvas, layer, history and selection stores are defined in files
  that are not part of the sources at hand. They are taken as parameters: each action
  is an arbitrary function on the state of its own store.
\<close>

record store_api =
  setBaseImage :: "base_image \<Rightarrow> string \<Rightarrow> canvas_state \<Rightarrow> canvas_state"
  clearImage :: "canvas_state \<Rightarrow> canvas_state"
  setZoom :: "real \<Rightarrow> canvas_state \<Rightarrow> canvas_state"
  setPan :: "real \<Rightarrow> real \<Rightarrow> canvas_state \<Rightarrow> canvas_state"
  restoreLayers :: "layer list \<Rightarrow> string option \<Rightarrow> layer_state \<Rightarrow> layer_state"
  clearLayers :: "layer_state \<Rightarrow> layer_state"
  restoreState :: "history_snapshot list \<Rightarrow> history_snapshot list \<Rightarrow> bool \<Rightarrow> history_state \<Rightarrow> history_state"
  reset :: "history_state \<Rightarrow> history_state"
  clearSelection :: "selection_state \<Rightarrow> selection_state"

text \<open>
  The whole state the module touches: the projects store itself, the four live stores
  and the module variable \<^verbatim>\<open>previousImagePath\<close> of the canvas subscription.
\<close>

record world =
  projects :: "(string \<times> project_snapshot) list"
  activeProjectId :: jsid
  tabOrder :: "string list"
  canvasStore :: canvas_state
  layerStore :: layer_state
  historyStore :: history_state
  selectionStore :: selection_state
  previousImagePath :: "string option"

section \<open>Helpers of the projects store\<close>

text \<open>Decimal rendering of \<^verbatim>\<open>Date.now()\<close> inside a template string.\<close>

fun string_of_nat :: "nat \<Rightarrow> string" where
  "string_of_nat n =
     (if n < 10 then [char_of (48 + n)]
      else string_of_nat (n div 10) @ [char_of (48 + n mod 10)])"

declare string_of_nat.simps [simp del]

text \<open>
  \<^verbatim>\<open>generateProjectId\<close>: \<^verbatim>\<open>now\<close> is the value of \<^verbatim>\<open>Date.now()\<close> and \<^verbatim>\<open>rnd\<close> the
  text \<^verbatim>\<open>Math.random().toString(36).substr(2, 9)\<close>, both inputs from the runtime.
\<close>

definition generateProjectId :: "nat \<Rightarrow> string \<Rightarrow> string" where
  "generateProjectId now rnd = ''project-'' @ string_of_nat now @ ''-'' @ rnd"

definition createEmptySnapshot :: "nat \<Rightarrow> string \<Rightarrow> string \<Rightarrow> project_snapshot" where
  "createEmptySnapshot now i n =
     \<lparr> sid = i, sname = n, createdAt = now, baseImage = None, imagePath = None,
       zoom = 100, panX = 0, panY = 0, layers = [], activeLayerId = None,
       historyPast = [], historyFuture = [], isDirty = False \<rparr>"

definition captureCurrentState :: "nat \<Rightarrow> string \<Rightarrow> string \<Rightarrow> world \<Rightarrow> project_snapshot" where
  "captureCurrentState now i n w =
     \<lparr> sid = i, sname = n, createdAt = now,
       baseImage = cv_baseImage (canvasStore w),
       imagePath = cv_imagePath (canvasStore w),
       zoom = cv_zoom (canvasStore w),
       panX = cv_panX (canvasStore w),
       panY = cv_panY (canvasStore w),
       layers = ly_layers (layerStore w),
       activeLayerId = ly_activeLayerId (layerStore w),
       historyPast = past (historyStore w),
       historyFuture = future (historyStore w),
       isDirty = h_isDirty (historyStore w) \<rparr>"

subsection \<open>The two subscriptions at the end of the module\<close>

text \<open>
  The listener on the history store's \<^verbatim>\<open>isDirty\<close>: it copies the flag into the stored
  snapshot of the active project.
\<close>

definition isDirty_listener :: "bool \<Rightarrow> world \<Rightarrow> world" where
  "isDirty_listener d w =
     (case activeProjectId w of
        Id a \<Rightarrow>
          (if a = [] then w
           else (case Map_get (projects w) a of
                   None \<Rightarrow> w
                 | Some project \<Rightarrow>
                     (if isDirty project \<noteq> d
                      then w\<lparr>projects := Map_set (projects w) a (project\<lparr>isDirty := d\<rparr>)\<rparr>
                      else w)))
      | _ \<Rightarrow> w)"

text \<open>
  The listener on the canvas store: it tracks \<^verbatim>\<open>previousImagePath\<close> and copies a changed
  path into the stored snapshot of the active project.
\<close>

definition imagePath_listener :: "world \<Rightarrow> world" where
  "imagePath_listener w =
     (let p = cv_imagePath (canvasStore w) in
      if p \<noteq> previousImagePath w then
        (let w1 = w\<lparr>previousImagePath := p\<rparr> in
         case activeProjectId w1 of
           Id a \<Rightarrow>
             (if a = [] then w1
              else (case Map_get (projects w1) a of
                      None \<Rightarrow> w1
                    | Some project \<Rightarrow>
                        (if imagePath project \<noteq> p
                         then w1\<lparr>projects := Map_set (projects w1) a (project\<lparr>imagePath := p\<rparr>)\<rparr>
                         else w1)))
         | _ \<Rightarrow> w1)
      else w)"

text \<open>
  Calling an action of a live store: the store's state is replaced and its subscribers
  run. The history listener is registered with a selector, so it runs only when
  \<^verbatim>\<open>isDirty\<close> has changed.
\<close>

definition canvas_action :: "(canvas_state \<Rightarrow> canvas_state) \<Rightarrow> world \<Rightarrow> world" where
  "canvas_action f w = imagePath_listener (w\<lparr>canvasStore := f (canvasStore w)\<rparr>)"

definition layer_action :: "(layer_state \<Rightarrow> layer_state) \<Rightarrow> world \<Rightarrow> world" where
  "layer_action f w = w\<lparr>layerStore := f (layerStore w)\<rparr>"

definition history_action :: "(history_state \<Rightarrow> history_state) \<Rightarrow> world \<Rightarrow> world" where
  "history_action f w =
     (let h = f (historyStore w); w1 = w\<lparr>historyStore := h\<rparr> in
      if h_isDirty h \<noteq> h_isDirty (historyStore w) then isDirty_listener (h_isDirty h) w1 else w1)"

definition selection_action :: "(selection_state \<Rightarrow> selection_state) \<Rightarrow> world \<Rightarrow> world" where
  "selection_action f w = w\<lparr>selectionStore := f (selectionStore w)\<rparr>"

subsection \<open>Restoring and clearing the live stores\<close>

definition restoreStateFromSnapshot :: "store_api \<Rightarrow> project_snapshot \<Rightarrow> world \<Rightarrow> world" where
  "restoreStateFromSnapshot api snapshot w =
     (let w1 = (case baseImage snapshot of
                  Some img \<Rightarrow>
                    canvas_action
                      (setBaseImage api img (case imagePath snapshot of None \<Rightarrow> [] | Some p \<Rightarrow> p)) w
                | None \<Rightarrow> canvas_action (clearImage api) w);
          w2 = canvas_action (setZoom api (zoom snapshot)) w1;
          w3 = canvas_action (setPan api (panX snapshot) (panY snapshot)) w2;
          w4 = (if length (layers snapshot) > 0
                then layer_action (restoreLayers api (layers snapshot) (activeLayerId snapshot)) w3
                else layer_action (clearLayers api) w3);
          w5 = history_action
                 (restoreState api (historyPast snapshot) (historyFuture snapshot) (isDirty snapshot)) w4
      in selection_action (clearSelection api) w5)"

definition clearAllStores :: "store_api \<Rightarrow> world \<Rightarrow> world" where
  "clearAllStores api w =
     selection_action (clearSelection api)
       (history_action (reset api)
          (layer_action (clearLayers api)
             (canvas_action (clearImage api) w)))"

section \<open>The actions of the projects store\<close>

definition saveCurrentProjectState :: "nat \<Rightarrow> world \<Rightarrow> world" where
  "saveCurrentProjectState now w =
     (case activeProjectId w of
        Id a \<Rightarrow>
          (if a = [] then w
           else (case Map_get (projects w) a of
                   None \<Rightarrow> w
                 | Some currentProject \<Rightarrow>
                     w\<lparr>projects :=
                         Map_set (projects w) a
                           (captureCurrentState now a (sname currentProject) w)\<rparr>))
      | _ \<Rightarrow> w)"

text \<open>
  \<^verbatim>\<open>createProject(name?, fromDrop?)\<close>. The function is given as the list of the states
  after each of its four effects, in order: the save of the outgoing project, the
  \<^verbatim>\<open>set({ activeProjectId: null })\<close>, the clearing of the stores, and the final \<^verbatim>\<open>set\<close>.
  \<^verbatim>\<open>t_id\<close>, \<^verbatim>\<open>t_save\<close> and \<^verbatim>\<open>t_new\<close> are the three readings of \<^verbatim>\<open>Date.now()\<close>.
\<close>

definition createProject_trace ::
  "store_api \<Rightarrow> nat \<Rightarrow> string \<Rightarrow> nat \<Rightarrow> nat \<Rightarrow> string option \<Rightarrow> bool \<Rightarrow> world \<Rightarrow> world list" where
  "createProject_trace api t_id rnd t_save t_new name fromDrop w =
     (let i = generateProjectId t_id rnd;
          projectName = (case name of None \<Rightarrow> ''Untitled''
                         | Some n \<Rightarrow> if n = [] then ''Untitled'' else n);
          w1 = (if truthy (activeProjectId w) then saveCurrentProjectState t_save w else w);
          w2 = w1\<lparr>activeProjectId := Null\<rparr>;
          w3 = (if \<not> fromDrop then clearAllStores api w2 else w2);
          newProject = createEmptySnapshot t_new i projectName;
          w4 = w3\<lparr>projects := Map_set (projects w3) i newProject,
                   activeProjectId := Id i,
                   tabOrder := tabOrder w @ [i]\<rparr>
      in [w1, w2, w3, w4])"

definition createProject ::
  "store_api \<Rightarrow> nat \<Rightarrow> string \<Rightarrow> nat \<Rightarrow> nat \<Rightarrow> string option \<Rightarrow> bool \<Rightarrow> world \<Rightarrow> string \<times> world" where
  "createProject api t_id rnd t_save t_new name fromDrop w =
     (generateProjectId t_id rnd,
      last (w # createProject_trace api t_id rnd t_save t_new name fromDrop w))"

text \<open>
  \<^verbatim>\<open>forceCloseProject(id)\<close>: \<^verbatim>\<open>newActiveId\<close> first, then the states after each effect.
\<close>

definition newActiveId :: "string \<Rightarrow> world \<Rightarrow> jsid" where
  "newActiveId i w =
     (let tabIndex = indexOf (tabOrder w) i;
          newTabOrder = filter (\<lambda>tid. tid \<noteq> i) (tabOrder w)
      in if length newTabOrder > 0 then
           (if Id i = activeProjectId w
            then js_index newTabOrder (min tabIndex (int (length newTabOrder) - 1))
            else activeProjectId w)
         else Null)"

definition forceCloseProject_trace :: "store_api \<Rightarrow> string \<Rightarrow> world \<Rightarrow> world list" where
  "forceCloseProject_trace api i w =
     (let newProjects = Map_delete (projects w) i;
          newTabOrder = filter (\<lambda>tid. tid \<noteq> i) (tabOrder w);
          n = newActiveId i w
      in if n \<noteq> activeProjectId w then
           (let w1 = w\<lparr>activeProjectId := Null\<rparr>;
                w2 = (if truthy n then
                        (case n of
                           Id a \<Rightarrow> (case Map_get newProjects a of
                                      Some newActiveProject \<Rightarrow>
                                        restoreStateFromSnapshot api newActiveProject w1
                                    | None \<Rightarrow> w1)
                         | _ \<Rightarrow> w1)
                      else clearAllStores api w1)
            in [w1, w2,
                w2\<lparr>projects := newProjects, tabOrder := newTabOrder, activeProjectId := n\<rparr>])
         else [w\<lparr>projects := newProjects, tabOrder := newTabOrder, activeProjectId := n\<rparr>])"

definition forceCloseProject :: "store_api \<Rightarrow> string \<Rightarrow> world \<Rightarrow> world" where
  "forceCloseProject api i w = last (w # forceCloseProject_trace api i w)"

definition closeProject :: "store_api \<Rightarrow> string \<Rightarrow> world \<Rightarrow> bool \<times> world" where
  "closeProject api i w =
     (case Map_get (projects w) i of
        None \<Rightarrow> (True, w)
      | Some project \<Rightarrow>
          (let isProjectDirty =
                 (if Id i = activeProjectId w then h_isDirty (historyStore w)
                  else isDirty project)
           in if isProjectDirty then (False, w)
              else (True, forceCloseProject api i w)))"

text \<open>
  \<^verbatim>\<open>switchProject(id)\<close>: the states after the save of the outgoing project, after
  \<^verbatim>\<open>set({ activeProjectId: id })\<close> and after the restore; no state when it returns early.
\<close>

definition switchProject_trace :: "store_api \<Rightarrow> nat \<Rightarrow> string \<Rightarrow> world \<Rightarrow> world list" where
  "switchProject_trace api now i w =
     (if Id i = activeProjectId w then []
      else (case Map_get (projects w) i of
              None \<Rightarrow> []
            | Some targetProject \<Rightarrow>
                (let w1 = (if truthy (activeProjectId w)
                           then saveCurrentProjectState now w else w);
                     w2 = w1\<lparr>activeProjectId := Id i\<rparr>;
                     w3 = restoreStateFromSnapshot api targetProject w2
                 in [w1, w2, w3])))"

definition switchProject :: "store_api \<Rightarrow> nat \<Rightarrow> string \<Rightarrow> world \<Rightarrow> world" where
  "switchProject api now i w = last (w # switchProject_trace api now i w)"

definition updateProjectName :: "string \<Rightarrow> string \<Rightarrow> world \<Rightarrow> world" where
  "updateProjectName i n w =
     (case Map_get (projects w) i of
        None \<Rightarrow> w
      | Some project \<Rightarrow> w\<lparr>projects := Map_set (projects w) i (project\<lparr>sname := n\<rparr>)\<rparr>)"

definition hasUnsavedChanges :: "string \<Rightarrow> world \<Rightarrow> bool" where
  "hasUnsavedChanges i w =
     (if Id i = activeProjectId w then h_isDirty (historyStore w)
      else (case Map_get (projects w) i of None \<Rightarrow> False | Some project \<Rightarrow> isDirty project))"

subsection \<open>\<^verbatim>\<open>findProjectByPath\<close>\<close>

text \<open>
  \<^verbatim>\<open>path.toLowerCase().replace(/\\/g, '/')\<close>. \<^verbatim>\<open>toLowerCase\<close> is the runtime's and is a
  parameter; the replacement of every backslash (character 92) is written out.
\<close>

definition normalizePath :: "(string \<Rightarrow> string) \<Rightarrow> string \<Rightarrow> string" where
  "normalizePath toLowerCase path =
     map (\<lambda>c. if c = CHR 0x5C then CHR ''/'' else c) (toLowerCase path)"

text \<open>The loop over the stored snapshots, in the insertion order of the \<^verbatim>\<open>Map\<close>.\<close>

fun find_stored :: "(string \<Rightarrow> string) \<Rightarrow> string \<Rightarrow> (string \<times> project_snapshot) list \<Rightarrow> string option" where
  "find_stored lc normalizedPath [] = None"
| "find_stored lc normalizedPath ((i, project) # rest) =
     (case imagePath project of
        None \<Rightarrow> find_stored lc normalizedPath rest
      | Some p \<Rightarrow>
          (if p \<noteq> [] \<and> normalizePath lc p = normalizedPath then Some i
           else find_stored lc normalizedPath rest))"

definition findProjectByPath :: "(string \<Rightarrow> string) \<Rightarrow> string \<Rightarrow> world \<Rightarrow> string option" where
  "findProjectByPath lc filePath w =
     (let normalizedPath = normalizePath lc filePath;
          stored = find_stored lc normalizedPath (projects w)
      in case activeProjectId w of
           Id a \<Rightarrow>
             (case cv_imagePath (canvasStore w) of
                Some currentImagePath \<Rightarrow>
                  (if a \<noteq> [] \<and> currentImagePath \<noteq> []
                      \<and> normalizePath lc currentImagePath = normalizedPath
                   then Some a else stored)
              | None \<Rightarrow> stored)
         | _ \<Rightarrow> stored)"

text \<open>
  The comparison \<^verbatim>\<open>findProjectByPath\<close> makes in both of its places: the path on
  record is set and non-empty, and equals the query once both are normalised.
\<close>

definition same_path :: "(string \<Rightarrow> string) \<Rightarrow> string \<Rightarrow> string option \<Rightarrow> bool" where
  "same_path lc filePath stored =
     (case stored of
        None \<Rightarrow> False
      | Some p \<Rightarrow> p \<noteq> [] \<and> normalizePath lc p = normalizePath lc filePath)"

section \<open>Sequences of operations\<close>

text \<open>
  One constructor per action of the projects store, with the runtime inputs it reads,
  and one per live store for an action called on that store between two operations
  (an edit, an undo, a zoom).
\<close>

datatype op =
    OpCreateProject nat string nat nat "string option" bool
  | OpSwitchProject nat string
  | OpCloseProject string
  | OpForceCloseProject string
  | OpSaveCurrentProjectState nat
  | OpUpdateProjectName string string
  | OpCanvas "canvas_state \<Rightarrow> canvas_state"
  | OpLayer "layer_state \<Rightarrow> layer_state"
  | OpHistory "history_state \<Rightarrow> history_state"
  | OpSelection "selection_state \<Rightarrow> selection_state"

fun apply_op :: "store_api \<Rightarrow> op \<Rightarrow> world \<Rightarrow> world" where
  "apply_op api (OpCreateProject t_id rnd t_save t_new name fromDrop) w =
     snd (createProject api t_id rnd t_save t_new name fromDrop w)"
| "apply_op api (OpSwitchProject now i) w = switchProject api now i w"
| "apply_op api (OpCloseProject i) w = snd (closeProject api i w)"
| "apply_op api (OpForceCloseProject i) w = forceCloseProject api i w"
| "apply_op api (OpSaveCurrentProjectState now) w = saveCurrentProjectState now w"
| "apply_op api (OpUpdateProjectName i n) w = updateProjectName i n w"
| "apply_op api (OpCanvas f) w = canvas_action f w"
| "apply_op api (OpLayer f) w = layer_action f w"
| "apply_op api (OpHistory f) w = history_action f w"
| "apply_op api (OpSelection f) w = selection_action f w"

fun run_ops :: "store_api \<Rightarrow> op list \<Rightarrow> world \<Rightarrow> world" where
  "run_ops api [] w = w"
| "run_ops api (x # xs) w = run_ops api xs (apply_op api x w)"

text \<open>The store as the module creates it, over any state of the live stores.\<close>

definition initial_world ::
  "canvas_state \<Rightarrow> layer_state \<Rightarrow> history_state \<Rightarrow> selection_state \<Rightarrow> world" where
  "initial_world c l h s =
     \<lparr> projects = [], activeProjectId = Null, tabOrder = [],
       canvasStore = c, layerStore = l, historyStore = h, selectionStore = s,
       previousImagePath = None \<rparr>"

subsection \<open>Invariants of the registry\<close>

text \<open>
  The invariant of the Session Registry: the active id is \<^verbatim>\<open>null\<close>, or it is a key of the
  mapping and an element of the tab sequence.
\<close>

definition active_ok :: "world \<Rightarrow> bool" where
  "active_ok w =
     (case activeProjectId w of
        Null \<Rightarrow> True
      | Undefined \<Rightarrow> False
      | Id a \<Rightarrow> a \<in> set (Map_keys (projects w)) \<and> a \<in> set (tabOrder w))"

text \<open>
  What every reachable state satisfies besides: the tabs are exactly the keys of the
  mapping, and no key is the empty string.
\<close>

definition wf_world :: "world \<Rightarrow> bool" where
  "wf_world w =
     (set (tabOrder w) = set (Map_keys (projects w))
      \<and> [] \<notin> set (Map_keys (projects w))
      \<and> active_ok w)"

section \<open>Concrete values for evaluation\<close>

text \<open>A plain implementation of the store actions: every action is the setter its name says.\<close>

definition plain_api :: store_api where
  "plain_api =
     \<lparr> setBaseImage = (\<lambda>img p c. c\<lparr>cv_baseImage := Some img, cv_imagePath := Some p\<rparr>),
       clearImage = (\<lambda>c. c\<lparr>cv_baseImage := None, cv_imagePath := None\<rparr>),
       setZoom = (\<lambda>z c. c\<lparr>cv_zoom := z\<rparr>),
       setPan = (\<lambda>x y c. c\<lparr>cv_panX := x, cv_panY := y\<rparr>),
       restoreLayers = (\<lambda>ls a s. \<lparr>ly_layers = ls, ly_activeLayerId = a\<rparr>),
       clearLayers = (\<lambda>s. \<lparr>ly_layers = [], ly_activeLayerId = None\<rparr>),
       restoreState = (\<lambda>p f d h. \<lparr>past = p, future = f, h_isDirty = d\<rparr>),
       reset = (\<lambda>h. \<lparr>past = [], future = [], h_isDirty = False\<rparr>),
       clearSelection = (\<lambda>s. None) \<rparr>"

definition ascii_toLowerCase :: "string \<Rightarrow> string" where
  "ascii_toLowerCase s =
     map (\<lambda>c. let n = (of_char c :: nat) in if 65 \<le> n \<and> n \<le> 90 then char_of (n + 32) else c) s"

definition win_path :: string where
  "win_path = ''C:'' @ CHR 0x5C # ''Img'' @ CHR 0x5C # ''a.png''"

definition pic :: base_image where
  "pic = \<lparr> img_data = ''AAAA'', img_width = 4, img_height = 4, img_format = ''png'' \<rparr>"

definition snapA :: project_snapshot where
  "snapA = (createEmptySnapshot 1 ''A'' ''First'')
             \<lparr> baseImage := Some pic, imagePath := Some win_path \<rparr>"

definition snapB :: project_snapshot where
  "snapB = (createEmptySnapshot 2 ''B'' ''Second'') \<lparr> baseImage := Some pic, zoom := 50 \<rparr>"

definition snapC :: project_snapshot where
  "snapC = (createEmptySnapshot 3 ''C'' ''Third'')
             \<lparr> imagePath := Some ''/home/u/c.png'', isDirty := True \<rparr>"

text \<open>
  Three open projects, \<^verbatim>\<open>A\<close> active with unsaved live edits, \<^verbatim>\<open>B\<close> clean and \<^verbatim>\<open>C\<close>
  stored dirty.
\<close>

definition world3 :: world where
  "world3 =
     \<lparr> projects = [(''A'', snapA), (''B'', snapB), (''C'', snapC)],
       activeProjectId = Id ''A'',
       tabOrder = [''A'', ''B'', ''C''],
       canvasStore = \<lparr> cv_baseImage = Some pic, cv_imagePath = Some win_path,
                       cv_zoom = 100, cv_panX = 0, cv_panY = 0 \<rparr>,
       layerStore = \<lparr> ly_layers = [], ly_activeLayerId = None \<rparr>,
       historyStore = \<lparr> past = [\<lparr> hs_layers = [], hs_activeLayerId = None \<rparr>],
                        future = [], h_isDirty = True \<rparr>,
       selectionStore = Some ''rect'',
       previousImagePath = Some win_path \<rparr>"

text \<open>
  One open project, \<^verbatim>\<open>A\<close>, active, with the live stores of the state above: closing it
  leaves no tab.
\<close>

definition world1 :: world where
  "world1 = world3\<lparr>projects := [(''A'', snapA)], tabOrder := [''A'']\<rparr>"

section \<open>The layer store\<close>

text \<open>
  Modelled from the spec: the layer store (\<^verbatim>\<open>layerStore\<close>) is imported by the sources
  at hand but its file is not among them; only its test and its callers are. The three
  operations below follow section 4.1 of the specification word for word. The stack is
  the list of layers, bottom first.
\<close>

text \<open>
  Modelled from the spec: "Out-of-range indices fail with an \<^verbatim>\<open>IndexError\<close>", the one
  error of the layer store.
\<close>

datatype layer_error = IndexError

text \<open>
  Modelled from the spec: "assigns fresh id". The id is longer than every id in use, so
  it differs from all of them.
\<close>

definition fresh_layer_id :: "layer list \<Rightarrow> string" where
  "fresh_layer_id ls = replicate (Suc (foldr (\<lambda>l n. max (length (l_id l)) n) ls 0)) CHR ''L''"

text \<open>
  Modelled from the spec: "appends a new layer with \<^verbatim>\<open>order = currentCount\<close>, assigns
  fresh id; returns the id. Newly added layer becomes active."
\<close>

definition addLayer :: "layer \<Rightarrow> layer_state \<Rightarrow> string \<times> layer_state" where
  "addLayer spec s =
     (let newId = fresh_layer_id (ly_layers s);
          l = spec\<lparr>l_id := newId, l_order := int (length (ly_layers s))\<rparr>
      in (newId, \<lparr>ly_layers = ly_layers s @ [l], ly_activeLayerId = Some newId\<rparr>))"

text \<open>
  Modelled from the spec: the new active layer after the active one was removed is "the
  one now occupying the closest lower order, or null if none remain besides base".
\<close>

fun closest_lower :: "int \<Rightarrow> layer list \<Rightarrow> layer option" where
  "closest_lower k [] = None"
| "closest_lower k (l # ls) =
     (case closest_lower k ls of
        None \<Rightarrow> (if l_order l < k then Some l else None)
      | Some m \<Rightarrow> (if l_order l < k \<and> l_order m < l_order l then Some l else Some m))"

text \<open>
  Modelled from the spec: "closes the order gap (decrements order of all layers above
  the removed one)". \<^verbatim>\<open>k\<close> is the order of the removed layer.
\<close>

definition close_gap :: "int \<Rightarrow> int \<Rightarrow> int" where
  "close_gap k v = (if k < v then v - 1 else v)"

text \<open>
  Modelled from the spec: "fails silently (no-op) if id refers to the base layer or is
  absent. On success, closes the order gap [...] preserving contiguity; if the removed
  layer was active, the new active layer is the one now occupying the closest lower
  order, or null if none remain besides base."
\<close>

definition removeLayer :: "string \<Rightarrow> layer_state \<Rightarrow> layer_state" where
  "removeLayer i s =
     (case find (\<lambda>l. l_id l = i) (ly_layers s) of
        None \<Rightarrow> s
      | Some removed \<Rightarrow>
          (if l_type removed = ''base'' then s
           else
             (let remaining = filter (\<lambda>l. l_id l \<noteq> i) (ly_layers s);
                  closed = map (\<lambda>l. l\<lparr>l_order := close_gap (l_order removed) (l_order l)\<rparr>)
                             remaining;
                  newActive =
                    (if ly_activeLayerId s = Some i then
                       (if filter (\<lambda>l. l_type l \<noteq> ''base'') closed = [] then None
                        else map_option l_id (closest_lower (l_order removed) closed))
                     else ly_activeLayerId s)
              in \<lparr>ly_layers = closed, ly_activeLayerId = newActive\<rparr>)))"

text \<open>
  Modelled from the spec: "reassigns \<^verbatim>\<open>order\<close> for every layer so the sequence stays
  \<^verbatim>\<open>[0..N-1]\<close> matching the new arrangement".
\<close>

definition renumber :: "layer list \<Rightarrow> layer list" where
  "renumber ls = map (\<lambda>(n, l). l\<lparr>l_order := int n\<rparr>) (enumerate 0 ls)"

text \<open>
  Modelled from the spec: "moves the element at \<^verbatim>\<open>fromIndex\<close> to \<^verbatim>\<open>toIndex\<close>": the
  element is taken out and put back so that it stands at \<^verbatim>\<open>toIndex\<close>.
\<close>

definition move_element :: "nat \<Rightarrow> nat \<Rightarrow> 'a list \<Rightarrow> 'a list" where
  "move_element from to xs =
     (let rest = take from xs @ drop (Suc from) xs
      in take to rest @ [xs ! from] @ drop to rest)"

text \<open>
  Modelled from the spec: "moves the element at \<^verbatim>\<open>fromIndex\<close> to \<^verbatim>\<open>toIndex\<close> in the
  ordered view; reassigns \<^verbatim>\<open>order\<close> for every layer [...]. Out-of-range indices fail
  with an \<^verbatim>\<open>IndexError\<close>."
\<close>

definition reorderLayers :: "int \<Rightarrow> int \<Rightarrow> layer_state \<Rightarrow> layer_error + layer_state" where
  "reorderLayers fromIndex toIndex s =
     (let n = int (length (ly_layers s)) in
      if 0 \<le> fromIndex \<and> fromIndex < n \<and> 0 \<le> toIndex \<and> toIndex < n
      then Inr (s\<lparr>ly_layers := renumber (move_element (nat fromIndex) (nat toIndex) (ly_layers s))\<rparr>)
      else Inl IndexError)"

text \<open>Modelled from the spec: \<^verbatim>\<open>clearLayers\<close> is a "full replace" by the empty stack.\<close>

definition cleared_layers :: layer_state where
  "cleared_layers = \<lparr>ly_layers = [], ly_activeLayerId = None\<rparr>"

datatype layer_op = AddLayer layer | RemoveLayer string | ReorderLayers int int

text \<open>A failed \<^verbatim>\<open>reorderLayers\<close> leaves the store as it was.\<close>

fun apply_layer_op :: "layer_op \<Rightarrow> layer_state \<Rightarrow> layer_state" where
  "apply_layer_op (AddLayer spec) s = snd (addLayer spec s)"
| "apply_layer_op (RemoveLayer i) s = removeLayer i s"
| "apply_layer_op (ReorderLayers f t) s =
     (case reorderLayers f t s of Inl e \<Rightarrow> s | Inr s' \<Rightarrow> s')"

fun run_layer_ops :: "layer_op list \<Rightarrow> layer_state \<Rightarrow> layer_state" where
  "run_layer_ops [] s = s"
| "run_layer_ops (x # xs) s = run_layer_ops xs (apply_layer_op x s)"

text \<open>
  The invariants of a stack in section 3 of the specification that the operations rely
  on: ids are unique, and the \<^verbatim>\<open>order\<close> values are the numbers \<^verbatim>\<open>0 .. N-1\<close>, each once.
\<close>

definition orders_ok :: "layer list \<Rightarrow> bool" where
  "orders_ok ls =
     (set (map l_order ls) = {0 ..< int (length ls)} \<and> distinct (map l_order ls))"

definition stack_ok :: "layer list \<Rightarrow> bool" where
  "stack_ok ls = (distinct (map l_id ls) \<and> orders_ok ls)"

text \<open>The layer the test of the layer store adds, under a given name.\<close>

definition shape_layer :: "string \<Rightarrow> layer" where
  "shape_layer n =
     \<lparr> l_id = [], l_name = n, l_type = ''shape'', l_visible = True, l_opacity = 100,
       l_order = 0, l_imageData = [], l_originalImageData = None, l_x = None, l_y = None,
       l_width = None, l_height = None, l_featherRadius = None, l_polygonPoints = None \<rparr>"

section \<open>The layer renderer (\<^verbatim>\<open>useLayerRenderer\<close>)\<close>

text \<open>
  The scene graph (the Fabric canvas and its objects) is outside the repository. The
  model keeps the state the hook owns through its refs, and records every call the hook
  makes on the canvas, on a canvas object, on the image loader and on the two image
  transforms, in the order of the calls. Canvas objects are handles.
\<close>

datatype call =
    ApplyLayerFeathering layer
  | ApplySharpPolygonMask layer
  | FromURL string
  | CanvasRemove nat
  | CanvasAdd nat
  | ObjectSet nat layer
  | SetActiveObject nat
  | EnforceZOrder
  | RemoveUntracked
  | RequestRenderAll


record render_state =
  processingVersion :: nat
  editLayerObjects :: "(string \<times> nat) list"
  layerFeatherCache :: "(string \<times> real) list"
  baseImageObject :: "nat option"
  polygonOutline :: "nat option"

text \<open>
  \<^verbatim>\<open>processingVersionRef.current++\<close> on a JavaScript number: exact below \<^verbatim>\<open>2^53\<close>,
  where adding one no longer changes the number.
\<close>

definition js_incr :: "nat \<Rightarrow> nat" where
  "js_incr n = (if n < 2 ^ 53 then n + 1 else n)"

text \<open>
  What an awaited promise can do: the two transforms resolve to an image or to nothing
  (the hook tests the result for truthiness), or reject; the loader resolves to an
  image object with its dimensions, or rejects.
\<close>

datatype transform_outcome = Resolved "string option" | TransformRejected

datatype load_outcome = Loaded nat real real | LoadRejected

text \<open>
  The environment of one iteration of the loop. While the pass is suspended in an
  \<^verbatim>\<open>await\<close>, other code runs (a newer pass, the base image loader): \<^verbatim>\<open>during_transform\<close>
  and \<^verbatim>\<open>during_load\<close> are what that code does to the shared state.
  \<^verbatim>\<open>active_object\<close> is what \<^verbatim>\<open>canvas.getActiveObject()\<close> reports.
\<close>

record layer_env =
  transform_result :: transform_outcome
  during_transform :: "render_state \<Rightarrow> render_state"
  load_result :: load_outcome
  during_load :: "render_state \<Rightarrow> render_state"
  active_object :: "nat option"

datatype step_status = Next | Stale | Rejected

definition truthy_text :: "string option \<Rightarrow> bool" where
  "truthy_text t = (case t of None \<Rightarrow> False | Some x \<Rightarrow> x \<noteq> [])"

text \<open>\<^verbatim>\<open>if (x) imageData = x\<close>: the text when it is truthy, the previous value otherwise.\<close>

definition or_keep :: "string option \<Rightarrow> string \<Rightarrow> string" where
  "or_keep t imageData = (case t of None \<Rightarrow> imageData | Some x \<Rightarrow> if x \<noteq> [] then x else imageData)"

definition data_url :: "string \<Rightarrow> string" where
  "data_url imageData =
     (if take 5 imageData = ''data:'' then imageData else ''data:image/png;base64,'' @ imageData)"

definition currentFeather :: "layer \<Rightarrow> real" where
  "currentFeather l = (case l_featherRadius l of None \<Rightarrow> 0 | Some r \<Rightarrow> r)"

definition featherChanged :: "real option \<Rightarrow> layer \<Rightarrow> bool" where
  "featherChanged cachedFeather l =
     (case cachedFeather of None \<Rightarrow> False | Some c \<Rightarrow> c \<noteq> currentFeather l)"

definition has_polygon :: "layer \<Rightarrow> bool" where
  "has_polygon l = (case l_polygonPoints l of None \<Rightarrow> False | Some pts \<Rightarrow> 3 \<le> length pts)"

text \<open>
  The end of an iteration (lines 152 to 186): the object is positioned and, when its
  layer is the active one and the canvas has another active object, made active.
\<close>

definition place_object :: "string option \<Rightarrow> layer \<Rightarrow> layer_env \<Rightarrow> nat \<Rightarrow> call list" where
  "place_object activeId l env obj =
     ObjectSet obj l #
     (if Some (l_id l) = activeId \<and> active_object env \<noteq> Some obj then [SetActiveObject obj] else [])"

text \<open>
  Loading the image and replacing the object (lines 126 to 149). \<^verbatim>\<open>obj\<close> is the object
  read at the top of the iteration; \<^verbatim>\<open>s\<close> is the state when the loader is called.
\<close>

definition load_and_replace ::
  "string option \<Rightarrow> layer \<Rightarrow> layer_env \<Rightarrow> nat option \<Rightarrow> string \<Rightarrow> render_state
     \<Rightarrow> step_status \<times> call list \<times> render_state" where
  "load_and_replace activeId l env obj imageData s =
     (let s2 = during_load env s in
      case load_result env of
        LoadRejected \<Rightarrow> (Next, [FromURL (data_url imageData)], s2)
      | Loaded img w h \<Rightarrow>
          (if w \<le> 0 \<or> h \<le> 0 then (Next, [FromURL (data_url imageData)], s2)
           else
             (Next,
              FromURL (data_url imageData) #
                (case obj of None \<Rightarrow> [] | Some old \<Rightarrow> [CanvasRemove old]) @
                CanvasAdd img # place_object activeId l env img,
              s2\<lparr>editLayerObjects := Map_set (editLayerObjects s2) (l_id l) img,
                 layerFeatherCache := Map_set (layerFeatherCache s2) (l_id l) (currentFeather l)\<rparr>)))"

text \<open>
  Creating the object anew (lines 102 to 149): the image to load is chosen, with a
  transform when \<^verbatim>\<open>needsFeatherApply\<close> holds, and loaded.
\<close>

definition needsFeatherApply :: "real option \<Rightarrow> layer \<Rightarrow> bool" where
  "needsFeatherApply cachedFeather l =
     (truthy_text (l_originalImageData l)
      \<and> (featherChanged cachedFeather l \<or> cachedFeather = None))"

definition recreate_object ::
  "string option \<Rightarrow> layer \<Rightarrow> layer_env \<Rightarrow> nat option \<Rightarrow> real option \<Rightarrow> render_state
     \<Rightarrow> step_status \<times> call list \<times> render_state" where
  "recreate_object activeId l env obj cachedFeather s =
     (if needsFeatherApply cachedFeather l then
           (if 0 < currentFeather l then
              (case transform_result env of
                 TransformRejected \<Rightarrow> (Rejected, [ApplyLayerFeathering l], during_transform env s)
               | Resolved featheredImage \<Rightarrow>
                   (case load_and_replace activeId l env obj
                           (or_keep featheredImage (l_imageData l)) (during_transform env s) of
                      (st, cs, s') \<Rightarrow> (st, ApplyLayerFeathering l # cs, s')))
            else if has_polygon l then
              (case transform_result env of
                 TransformRejected \<Rightarrow> (Rejected, [ApplySharpPolygonMask l], during_transform env s)
               | Resolved sharpImage \<Rightarrow>
                   (case load_and_replace activeId l env obj
                           (or_keep sharpImage (l_imageData l)) (during_transform env s) of
                      (st, cs, s') \<Rightarrow> (st, ApplySharpPolygonMask l # cs, s')))
            else load_and_replace activeId l env obj
                   (or_keep (l_originalImageData l) (l_imageData l)) s)
      else load_and_replace activeId l env obj (l_imageData l) s)"

text \<open>
  One iteration of the loop of \<^verbatim>\<open>processAllLayers\<close> (lines 86 to 187) for the pass tagged
  \<^verbatim>\<open>currentVersion\<close>: its status, the calls it makes and the state it leaves.
\<close>

definition process_layer ::
  "nat \<Rightarrow> string option \<Rightarrow> layer \<Rightarrow> layer_env \<Rightarrow> render_state
     \<Rightarrow> step_status \<times> call list \<times> render_state" where
  "process_layer currentVersion activeId l env s =
     (if processingVersion s \<noteq> currentVersion then (Stale, [], s)
      else if l_type l = ''base'' then (Next, [], s)
      else
        (let obj = Map_get (editLayerObjects s) (l_id l);
             cachedFeather = Map_get (layerFeatherCache s) (l_id l)
         in if obj = None \<or> featherChanged cachedFeather l
            then recreate_object activeId l env obj cachedFeather s
            else (case obj of
                    None \<Rightarrow> (Next, [], s)
                  | Some existing \<Rightarrow> (Next, place_object activeId l env existing, s))))"









text \<open>Concrete values for evaluating the renderer.\<close>

definition feathered_layer :: layer where
  "feathered_layer =
     (shape_layer ''Glow'')\<lparr>l_id := ''g1'', l_imageData := ''RAW'', l_featherRadius := Some 5\<rparr>"

definition feathered_layer_orig :: layer where
  "feathered_layer_orig = feathered_layer\<lparr>l_originalImageData := Some ''ORIG''\<rparr>"

definition scene0 :: render_state where
  "scene0 = \<lparr> processingVersion = 1, editLayerObjects = [], layerFeatherCache = [],
              baseImageObject = Some 0, polygonOutline = None \<rparr>"

text \<open>Nothing else runs during the awaits; the transform gives an image, the load succeeds.\<close>

definition quiet_env :: layer_env where
  "quiet_env = \<lparr> transform_result = Resolved (Some ''FEATHERED''), during_transform = (\<lambda>s. s),
                 load_result = Loaded 7 10 10, during_load = (\<lambda>s. s), active_object = None \<rparr>"

text \<open>The transform resolves to nothing.\<close>

definition null_transform_env :: layer_env where
  "null_transform_env = quiet_env\<lparr>transform_result := Resolved None\<rparr>"

text \<open>The load fails.\<close>

definition failed_load_env :: layer_env where
  "failed_load_env = quiet_env\<lparr>load_result := LoadRejected\<rparr>"

text \<open>A newer pass starts while the image loads: it increments the version.\<close>

definition overtaken_env :: layer_env where
  "overtaken_env =
     quiet_env\<lparr>during_load := (\<lambda>s. s\<lparr>processingVersion := js_incr (processingVersion s)\<rparr>)\<rparr>"

text \<open>
  The state an iteration leaves once the loader has returned: both maps are updated when
  the image has valid dimensions, nothing is otherwise.
\<close>

definition loaded_state :: "layer \<Rightarrow> layer_env \<Rightarrow> render_state \<Rightarrow> render_state" where
  "loaded_state l env sL =
     (case load_result env of
        LoadRejected \<Rightarrow> sL
      | Loaded handle w h \<Rightarrow>
          (if 0 < w \<and> 0 < h
           then sL\<lparr>editLayerObjects := Map_set (editLayerObjects sL) (l_id l) handle,
                   layerFeatherCache := Map_set (layerFeatherCache sL) (l_id l) (currentFeather l)\<rparr>
           else sL))"



section \<open>Properties of the \<^verbatim>\<open>Map\<close> operations and of the helpers\<close>

lemma Map_keys_Nil [simp]: "Map_keys [] = []"
  by (simp add: Map_keys_def)

lemma Map_keys_Cons [simp]: "Map_keys ((k, v) # m) = k # Map_keys m"
  by (simp add: Map_keys_def)

lemma Map_get_None_iff: "Map_get m k = None \<longleftrightarrow> k \<notin> set (Map_keys m)"
  by (induction m) (auto split: if_splits)

lemma Map_get_Some_key: "Map_get m k = Some v \<Longrightarrow> k \<in> set (Map_keys m)"
  using Map_get_None_iff [of m k] by auto


lemma Map_keys_set:
  "Map_keys (Map_set m k v) = (if k \<in> set (Map_keys m) then Map_keys m else Map_keys m @ [k])"
  by (induction m) auto

lemma Map_keys_set_present: "k \<in> set (Map_keys m) \<Longrightarrow> Map_keys (Map_set m k v) = Map_keys m"
  by (simp add: Map_keys_set)

lemma Map_keys_delete: "Map_keys (Map_delete m k) = filter (\<lambda>x. x \<noteq> k) (Map_keys m)"
  by (induction m) auto

lemma set_Map_keys_set: "set (Map_keys (Map_set m k v)) = insert k (set (Map_keys m))"
  by (auto simp: Map_keys_set)

lemma set_Map_keys_delete: "set (Map_keys (Map_delete m k)) = set (Map_keys m) - {k}"
  by (auto simp: Map_keys_delete)

lemma Map_get_delete: "Map_get (Map_delete m k) k' = (if k' = k then None else Map_get m k')"
  by (induction m) auto

lemma indexOf_nonneg_iff: "0 \<le> indexOf xs x \<longleftrightarrow> x \<in> set xs"
  by (induction xs) (auto simp: Let_def)

lemma generateProjectId_nonempty: "generateProjectId now rnd \<noteq> []"
  by (simp add: generateProjectId_def)

lemma isDirty_listener_frame:
  "activeProjectId (isDirty_listener d w) = activeProjectId w"
  "tabOrder (isDirty_listener d w) = tabOrder w"
  "Map_keys (projects (isDirty_listener d w)) = Map_keys (projects w)"
  "canvasStore (isDirty_listener d w) = canvasStore w"
  "layerStore (isDirty_listener d w) = layerStore w"
  "historyStore (isDirty_listener d w) = historyStore w"
  "selectionStore (isDirty_listener d w) = selectionStore w"
  by (auto simp: isDirty_listener_def Map_keys_set_present Map_get_Some_key split: jsid.splits option.splits)

lemma imagePath_listener_frame:
  "activeProjectId (imagePath_listener w) = activeProjectId w"
  "tabOrder (imagePath_listener w) = tabOrder w"
  "Map_keys (projects (imagePath_listener w)) = Map_keys (projects w)"
  "canvasStore (imagePath_listener w) = canvasStore w"
  "layerStore (imagePath_listener w) = layerStore w"
  "historyStore (imagePath_listener w) = historyStore w"
  "selectionStore (imagePath_listener w) = selectionStore w"
  by (auto simp: imagePath_listener_def Let_def Map_keys_set_present Map_get_Some_key split: jsid.splits option.splits)

section \<open>What the store actions and the listeners leave alone\<close>

lemma canvas_action_frame:
  "activeProjectId (canvas_action f w) = activeProjectId w"
  "tabOrder (canvas_action f w) = tabOrder w"
  "Map_keys (projects (canvas_action f w)) = Map_keys (projects w)"
  by (simp_all add: canvas_action_def imagePath_listener_frame)

lemma layer_action_frame:
  "activeProjectId (layer_action f w) = activeProjectId w"
  "tabOrder (layer_action f w) = tabOrder w"
  "projects (layer_action f w) = projects w"
  by (simp_all add: layer_action_def)

lemma history_action_frame:
  "activeProjectId (history_action f w) = activeProjectId w"
  "tabOrder (history_action f w) = tabOrder w"
  "Map_keys (projects (history_action f w)) = Map_keys (projects w)"
  by (simp_all add: history_action_def Let_def isDirty_listener_frame)

lemma selection_action_frame:
  "activeProjectId (selection_action f w) = activeProjectId w"
  "tabOrder (selection_action f w) = tabOrder w"
  "projects (selection_action f w) = projects w"
  by (simp_all add: selection_action_def)

lemmas action_frames = canvas_action_frame layer_action_frame history_action_frame
  selection_action_frame

lemma restore_frame:
  "activeProjectId (restoreStateFromSnapshot api snap w) = activeProjectId w"
  "tabOrder (restoreStateFromSnapshot api snap w) = tabOrder w"
  "Map_keys (projects (restoreStateFromSnapshot api snap w)) = Map_keys (projects w)"
  by (simp_all add: restoreStateFromSnapshot_def Let_def action_frames split: option.splits)

lemma clearAll_frame:
  "activeProjectId (clearAllStores api w) = activeProjectId w"
  "tabOrder (clearAllStores api w) = tabOrder w"
  "Map_keys (projects (clearAllStores api w)) = Map_keys (projects w)"
  by (simp_all add: clearAllStores_def action_frames)

lemma save_frame:
  "activeProjectId (saveCurrentProjectState now w) = activeProjectId w"
  "tabOrder (saveCurrentProjectState now w) = tabOrder w"
  "Map_keys (projects (saveCurrentProjectState now w)) = Map_keys (projects w)"
  by (auto simp: saveCurrentProjectState_def Map_keys_set_present Map_get_Some_key
      split: jsid.splits option.splits)

lemma updateProjectName_frame:
  "activeProjectId (updateProjectName i n w) = activeProjectId w"
  "tabOrder (updateProjectName i n w) = tabOrder w"
  "Map_keys (projects (updateProjectName i n w)) = Map_keys (projects w)"
  by (auto simp: updateProjectName_def Map_keys_set_present Map_get_Some_key
      split: option.splits)

lemma wf_frame:
  assumes "activeProjectId w' = activeProjectId w" "tabOrder w' = tabOrder w"
    "Map_keys (projects w') = Map_keys (projects w)" "wf_world w"
  shows "wf_world w'"
  using assms by (simp add: wf_world_def active_ok_def split: jsid.splits)

lemma wf_createProject:
  assumes "wf_world w"
  shows "wf_world (snd (createProject api t_id rnd t_save t_new name fromDrop w))"
proof -
  let ?i = "generateProjectId t_id rnd"
  let ?w1 = "if truthy (activeProjectId w) then saveCurrentProjectState t_save w else w"
  let ?w2 = "?w1\<lparr>activeProjectId := Null\<rparr>"
  let ?w3 = "if \<not> fromDrop then clearAllStores api ?w2 else ?w2"
  have k1: "Map_keys (projects ?w1) = Map_keys (projects w)"
    by (simp add: save_frame)
  have k3: "Map_keys (projects ?w3) = Map_keys (projects w)"
    using k1 by (simp add: clearAll_frame)
  have "set (tabOrder w) = set (Map_keys (projects w))" "[] \<notin> set (Map_keys (projects w))"
    using assms by (simp_all add: wf_world_def)
  then show ?thesis
    using k3 generateProjectId_nonempty [of t_id rnd]
    by (simp add: createProject_def createProject_trace_def Let_def wf_world_def active_ok_def
        set_Map_keys_set del: if_not_P) 
qed

section \<open>The registry invariant\<close>

lemma forceCloseProject_fields:
  "projects (forceCloseProject api i w) = Map_delete (projects w) i"
  "tabOrder (forceCloseProject api i w) = filter (\<lambda>tid. tid \<noteq> i) (tabOrder w)"
  "activeProjectId (forceCloseProject api i w) = newActiveId i w"
  by (simp_all add: forceCloseProject_def forceCloseProject_trace_def Let_def)

lemma js_index_in_range:
  "0 \<le> k \<Longrightarrow> k < int (length xs) \<Longrightarrow> js_index xs k = Id (xs ! nat k)"
  by (simp add: js_index_def)

lemma newActiveId_cases:
  assumes "wf_world w"
  shows "newActiveId i w = Null \<or>
         (\<exists>a. newActiveId i w = Id a \<and> a \<in> set (filter (\<lambda>tid. tid \<noteq> i) (tabOrder w)))"
proof (cases "filter (\<lambda>tid. tid \<noteq> i) (tabOrder w) = []")
  case True
  then show ?thesis by (simp add: newActiveId_def)
next
  case ne: False
  let ?new = "filter (\<lambda>tid. tid \<noteq> i) (tabOrder w)"
  show ?thesis
  proof (cases "Id i = activeProjectId w")
    case True
    with assms have "i \<in> set (tabOrder w)"
      by (auto simp: wf_world_def active_ok_def split: jsid.splits)
    then have idx: "0 \<le> indexOf (tabOrder w) i"
      by (simp add: indexOf_nonneg_iff)
    let ?k = "min (indexOf (tabOrder w) i) (int (length ?new) - 1)"
    from ne have len: "0 < length ?new" by simp
    have k0: "0 \<le> ?k" using idx len by simp
    have k1: "?k < int (length ?new)" by simp
    have "newActiveId i w = Id (?new ! nat ?k)"
      using True ne js_index_in_range [OF k0 k1] by (simp add: newActiveId_def Let_def)
    moreover have "?new ! nat ?k \<in> set ?new"
      using k0 k1 by (intro nth_mem) linarith
    ultimately show ?thesis by blast
  next
    case False
    then have n: "newActiveId i w = activeProjectId w"
      using ne by (simp add: newActiveId_def Let_def)
    show ?thesis
    proof (cases "activeProjectId w")
      case Null
      with n show ?thesis by simp
    next
      case Undefined
      with assms show ?thesis by (simp add: wf_world_def active_ok_def)
    next
      case (Id a)
      with False have "a \<noteq> i" by auto
      moreover from Id assms have "a \<in> set (tabOrder w)"
        by (simp add: wf_world_def active_ok_def)
      ultimately show ?thesis using n Id by simp
    qed
  qed
qed

lemma wf_forceCloseProject:
  assumes "wf_world w"
  shows "wf_world (forceCloseProject api i w)"
proof -
  let ?new = "filter (\<lambda>tid. tid \<noteq> i) (tabOrder w)"
  have tabs: "set (tabOrder w) = set (Map_keys (projects w))"
    and ne: "[] \<notin> set (Map_keys (projects w))"
    using assms by (simp_all add: wf_world_def)
  have eq: "set ?new = set (Map_keys (Map_delete (projects w) i))"
    unfolding set_Map_keys_delete using tabs by auto
  have ok: "active_ok (forceCloseProject api i w)"
  proof -
    from newActiveId_cases [OF assms, of i]
    consider "newActiveId i w = Null"
      | a where "newActiveId i w = Id a" "a \<in> set ?new"
      by blast
    then show ?thesis
    proof cases
      case 1
      then show ?thesis by (simp add: active_ok_def forceCloseProject_fields)
    next
      case 2
      from 2(2) have "a \<in> set (Map_keys (Map_delete (projects w) i))"
        by (simp only: eq)
      with 2 show ?thesis
        by (simp add: active_ok_def forceCloseProject_fields)
    qed
  qed
  have "[] \<notin> set (Map_keys (Map_delete (projects w) i))"
    using ne by (simp add: set_Map_keys_delete)
  with eq ok show ?thesis
    by (simp only: wf_world_def forceCloseProject_fields) simp
qed

lemma wf_closeProject:
  assumes "wf_world w"
  shows "wf_world (snd (closeProject api i w))"
  using assms wf_forceCloseProject [OF assms, of api i]
  by (simp add: closeProject_def Let_def split: option.splits)

lemma switchProject_fields:
  "tabOrder (switchProject api now i w) = tabOrder w"
  "Map_keys (projects (switchProject api now i w)) = Map_keys (projects w)"
  "activeProjectId (switchProject api now i w) =
     (if Id i = activeProjectId w then activeProjectId w
      else case Map_get (projects w) i of None \<Rightarrow> activeProjectId w | Some t \<Rightarrow> Id i)"
  by (simp_all add: switchProject_def switchProject_trace_def Let_def restore_frame save_frame
      split: option.splits)

lemma wf_switchProject:
  assumes "wf_world w"
  shows "wf_world (switchProject api now i w)"
proof -
  have "active_ok (switchProject api now i w)"
    using assms
    by (auto simp: active_ok_def wf_world_def switchProject_fields Map_get_Some_key
        split: option.splits jsid.splits)
  then show ?thesis
    using assms by (simp add: wf_world_def switchProject_fields)
qed

lemma wf_apply_op:
  assumes "wf_world w"
  shows "wf_world (apply_op api x w)"
proof (cases x)
  case (OpCreateProject t_id rnd t_save t_new name fromDrop)
  then show ?thesis using wf_createProject [OF assms] by simp
next
  case (OpSwitchProject now i)
  then show ?thesis using wf_switchProject [OF assms] by simp
next
  case (OpCloseProject i)
  then show ?thesis using wf_closeProject [OF assms] by simp
next
  case (OpForceCloseProject i)
  then show ?thesis using wf_forceCloseProject [OF assms] by simp
next
  case (OpSaveCurrentProjectState now)
  then show ?thesis using wf_frame [OF save_frame assms] by simp
next
  case (OpUpdateProjectName i n)
  then show ?thesis using wf_frame [OF updateProjectName_frame assms] by simp
next
  case (OpCanvas f)
  then show ?thesis using wf_frame [OF canvas_action_frame assms] by simp
next
  case (OpLayer f)
  then show ?thesis using wf_frame [OF layer_action_frame(1,2) _ assms] by (simp add: layer_action_frame)
next
  case (OpHistory f)
  then show ?thesis using wf_frame [OF history_action_frame assms] by simp
next
  case (OpSelection f)
  then show ?thesis using wf_frame [OF selection_action_frame(1,2) _ assms]
    by (simp add: selection_action_frame)
qed

lemma wf_run_ops: "wf_world w \<Longrightarrow> wf_world (run_ops api xs w)"
  by (induction xs arbitrary: w) (simp_all add: wf_apply_op)

lemma wf_initial_world: "wf_world (initial_world c l h s)"
  by (simp add: wf_world_def active_ok_def initial_world_def)

text \<open>
  Claim C6. After any sequence of \<^verbatim>\<open>createProject\<close>, \<^verbatim>\<open>switchProject\<close>,
  \<^verbatim>\<open>closeProject\<close>, \<^verbatim>\<open>forceCloseProject\<close>, \<^verbatim>\<open>saveCurrentProjectState\<close> and
  \<^verbatim>\<open>updateProjectName\<close> on the store as the module creates it (also with actions of
  the live stores in between, and whatever those actions do), the active project id is
  \<^verbatim>\<open>null\<close> or a key of the mapping that is also an element of the tab sequence.
\<close>

theorem registry_invariant:
  "active_ok (run_ops api xs (initial_world c l h s))"
  using wf_run_ops [OF wf_initial_world, of api xs c l h s] by (simp add: wf_world_def)

section \<open>Closing a project\<close>

text \<open>
  Claim C10. \<^verbatim>\<open>closeProject(id)\<close> with an id that is not a key of the registry returns
  \<^verbatim>\<open>true\<close> and changes nothing: the registry, the tab sequence, the active id and the
  live stores are those of before.
\<close>

theorem closeProject_unknown_id:
  assumes "Map_get (projects w) i = None"
  shows "closeProject api i w = (True, w)"
  using assms by (simp add: closeProject_def)

theorem closeProject_unknown_id_witness:
  "Map_get (projects world3) ''Z'' = None \<and> closeProject plain_api ''Z'' world3 = (True, world3)"
proof -
  have h: "Map_get (projects world3) ''Z'' = None"
    by (simp add: world3_def)
  from closeProject_unknown_id [OF h, of plain_api] h show ?thesis by simp
qed

text \<open>
  Claim C1. For an id of the registry, the dirtiness is the live history store's
  \<^verbatim>\<open>isDirty\<close> when the id is the active one and the stored snapshot's \<^verbatim>\<open>isDirty\<close>
  otherwise (it is what \<^verbatim>\<open>hasUnsavedChanges\<close> answers). When dirty, \<^verbatim>\<open>closeProject(id)\<close> returns \<^verbatim>\<open>false\<close> and the whole state (so the
  registry, the tab sequence and the active id) is unchanged; when clean it returns
  \<^verbatim>\<open>true\<close> and the state is that of \<^verbatim>\<open>forceCloseProject(id)\<close>.
\<close>

theorem closeProject_dirty_clean:
  assumes "Map_get (projects w) i = Some project"
  shows "let dirty = (if Id i = activeProjectId w then h_isDirty (historyStore w)
                      else isDirty project)
         in hasUnsavedChanges i w = dirty
          \<and> (dirty \<longrightarrow> closeProject api i w = (False, w))
          \<and> (\<not> dirty \<longrightarrow> closeProject api i w = (True, forceCloseProject api i w))"
  using assms by (simp add: closeProject_def hasUnsavedChanges_def Let_def)

lemma world3_fields:
  "projects world3 = [(''A'', snapA), (''B'', snapB), (''C'', snapC)]"
  "activeProjectId world3 = Id ''A''"
  "tabOrder world3 = [''A'', ''B'', ''C'']"
  "h_isDirty (historyStore world3) = True"
  by (simp_all add: world3_def)

lemma snap_dirty: "isDirty snapA = False" "isDirty snapB = False" "isDirty snapC = True"
  by (simp_all add: snapA_def snapB_def snapC_def createEmptySnapshot_def)

theorem closeProject_dirty_clean_witness:
  "Map_get (projects world3) ''A'' = Some snapA
   \<and> closeProject plain_api ''A'' world3 = (False, world3)
   \<and> Map_get (projects world3) ''C'' = Some snapC
   \<and> closeProject plain_api ''C'' world3 = (False, world3)
   \<and> Map_get (projects world3) ''B'' = Some snapB
   \<and> closeProject plain_api ''B'' world3 = (True, forceCloseProject plain_api ''B'' world3)
   \<and> projects (forceCloseProject plain_api ''B'' world3) = [(''A'', snapA), (''C'', snapC)]
   \<and> tabOrder (forceCloseProject plain_api ''B'' world3) = [''A'', ''C'']
   \<and> activeProjectId (forceCloseProject plain_api ''B'' world3) = Id ''A''"
proof -
  have a: "Map_get (projects world3) ''A'' = Some snapA"
    and b: "Map_get (projects world3) ''B'' = Some snapB"
    and c: "Map_get (projects world3) ''C'' = Some snapC"
    by (simp_all add: world3_fields)
  have "closeProject plain_api ''A'' world3 = (False, world3)"
    using closeProject_dirty_clean [OF a, of plain_api] by (simp add: world3_fields)
  moreover have "closeProject plain_api ''C'' world3 = (False, world3)"
    using closeProject_dirty_clean [OF c, of plain_api] by (simp add: world3_fields snap_dirty)
  moreover have "closeProject plain_api ''B'' world3 = (True, forceCloseProject plain_api ''B'' world3)"
    using closeProject_dirty_clean [OF b, of plain_api] by (simp add: world3_fields snap_dirty)
  moreover have "projects (forceCloseProject plain_api ''B'' world3) = [(''A'', snapA), (''C'', snapC)]"
    "tabOrder (forceCloseProject plain_api ''B'' world3) = [''A'', ''C'']"
    "activeProjectId (forceCloseProject plain_api ''B'' world3) = Id ''A''"
    by (simp_all add: forceCloseProject_fields world3_fields newActiveId_def)
  ultimately show ?thesis using a b c by simp
qed

section \<open>Force-closing, creating, switching and finding projects\<close>

lemma fenced_actions:
  assumes "activeProjectId w = Null"
  shows "projects (canvas_action f w) = projects w"
    and "projects (history_action g w) = projects w"
  using assms
  by (simp_all add: canvas_action_def imagePath_listener_def history_action_def
      isDirty_listener_def Let_def)

lemma fenced_restore:
  assumes "activeProjectId w = Null"
  shows "projects (restoreStateFromSnapshot api snap w) = projects w"
proof -
  have step: "\<And>f v. activeProjectId v = Null \<Longrightarrow> activeProjectId (canvas_action f v) = Null"
    by (simp add: canvas_action_frame)
  show ?thesis
    using assms
    by (simp add: restoreStateFromSnapshot_def Let_def fenced_actions action_frames
        split: option.splits)
qed

lemma fenced_clearAll:
  assumes "activeProjectId w = Null"
  shows "projects (clearAllStores api w) = projects w"
  using assms by (simp add: clearAllStores_def fenced_actions action_frames)

lemma newActiveId_when_active:
  assumes "wf_world w" "activeProjectId w = Id i"
  shows "newActiveId i w =
     (let newTabOrder = filter (\<lambda>tid. tid \<noteq> i) (tabOrder w) in
      if newTabOrder = [] then Null
      else Id (newTabOrder ! nat (min (indexOf (tabOrder w) i) (int (length newTabOrder) - 1))))"
proof -
  let ?new = "filter (\<lambda>tid. tid \<noteq> i) (tabOrder w)"
  from assms have "i \<in> set (tabOrder w)"
    by (simp add: wf_world_def active_ok_def)
  then have idx: "0 \<le> indexOf (tabOrder w) i"
    by (simp add: indexOf_nonneg_iff)
  show ?thesis
  proof (cases "?new = []")
    case True
    then show ?thesis by (simp add: newActiveId_def)
  next
    case False
    let ?k = "min (indexOf (tabOrder w) i) (int (length ?new) - 1)"
    from False have "0 < length ?new" by simp
    then have k0: "0 \<le> ?k" using idx by simp
    have k1: "?k < int (length ?new)" by simp
    show ?thesis
      using False assms(2) js_index_in_range [OF k0 k1]
      by (simp add: newActiveId_def Let_def)
  qed
qed

lemma newActiveId_when_not_active:
  assumes "wf_world w" "activeProjectId w \<noteq> Id i"
  shows "newActiveId i w = activeProjectId w"
proof (cases "filter (\<lambda>tid. tid \<noteq> i) (tabOrder w) = []")
  case True
  then have sub: "set (tabOrder w) \<subseteq> {i}"
    by (auto simp: filter_empty_conv)
  have "activeProjectId w = Null"
  proof (cases "activeProjectId w")
    case Null
    then show ?thesis .
  next
    case Undefined
    with assms(1) show ?thesis by (simp add: wf_world_def active_ok_def)
  next
    case (Id a)
    with assms(1) have "a \<in> set (tabOrder w)" by (simp add: wf_world_def active_ok_def)
    with sub have "a = i" by auto
    with Id assms(2) show ?thesis by simp
  qed
  with True show ?thesis by (simp add: newActiveId_def)
next
  case False
  with assms(2) show ?thesis by (auto simp: newActiveId_def Let_def)
qed

text \<open>
  What \<^verbatim>\<open>restoreStateFromSnapshot\<close> and \<^verbatim>\<open>clearAllStores\<close> leave in each of the four
  live stores: the listeners that run after an action touch none of them.
\<close>

lemma canvas_action_stores:
  "canvasStore (canvas_action f w) = f (canvasStore w)"
  "layerStore (canvas_action f w) = layerStore w"
  "historyStore (canvas_action f w) = historyStore w"
  "selectionStore (canvas_action f w) = selectionStore w"
  by (simp_all add: canvas_action_def imagePath_listener_frame)

lemma layer_action_stores:
  "canvasStore (layer_action f w) = canvasStore w"
  "layerStore (layer_action f w) = f (layerStore w)"
  "historyStore (layer_action f w) = historyStore w"
  "selectionStore (layer_action f w) = selectionStore w"
  by (simp_all add: layer_action_def)

lemma history_action_stores:
  "canvasStore (history_action f w) = canvasStore w"
  "layerStore (history_action f w) = layerStore w"
  "historyStore (history_action f w) = f (historyStore w)"
  "selectionStore (history_action f w) = selectionStore w"
  by (simp_all add: history_action_def Let_def isDirty_listener_frame)

lemma selection_action_stores:
  "canvasStore (selection_action f w) = canvasStore w"
  "layerStore (selection_action f w) = layerStore w"
  "historyStore (selection_action f w) = historyStore w"
  "selectionStore (selection_action f w) = f (selectionStore w)"
  by (simp_all add: selection_action_def)

lemmas action_stores = canvas_action_stores layer_action_stores history_action_stores
  selection_action_stores

lemma restore_stores:
  "canvasStore (restoreStateFromSnapshot api snapshot w) =
     setPan api (panX snapshot) (panY snapshot)
       (setZoom api (zoom snapshot)
          (case baseImage snapshot of
             Some img \<Rightarrow>
               setBaseImage api img (case imagePath snapshot of None \<Rightarrow> [] | Some p \<Rightarrow> p)
                 (canvasStore w)
           | None \<Rightarrow> clearImage api (canvasStore w)))"
  "layerStore (restoreStateFromSnapshot api snapshot w) =
     (if layers snapshot = [] then clearLayers api (layerStore w)
      else restoreLayers api (layers snapshot) (activeLayerId snapshot) (layerStore w))"
  "historyStore (restoreStateFromSnapshot api snapshot w) =
     restoreState api (historyPast snapshot) (historyFuture snapshot) (isDirty snapshot)
       (historyStore w)"
  "selectionStore (restoreStateFromSnapshot api snapshot w) = clearSelection api (selectionStore w)"
  by (simp_all add: restoreStateFromSnapshot_def Let_def action_stores split: option.splits)

lemma clearAll_stores:
  "canvasStore (clearAllStores api w) = clearImage api (canvasStore w)"
  "layerStore (clearAllStores api w) = clearLayers api (layerStore w)"
  "historyStore (clearAllStores api w) = reset api (historyStore w)"
  "selectionStore (clearAllStores api w) = clearSelection api (selectionStore w)"
  by (simp_all add: clearAllStores_def action_stores)

lemma wf_world3: "wf_world world3"
  by (simp add: wf_world_def active_ok_def world3_def)

lemma wf_world1: "wf_world world1"
  by (simp add: wf_world_def active_ok_def world1_def world3_def)

lemma world1_fields:
  "projects world1 = [(''A'', snapA)]"
  "tabOrder world1 = [''A'']"
  "activeProjectId world1 = Id ''A''"
  "canvasStore world1 = canvasStore world3"
  "layerStore world1 = layerStore world3"
  "historyStore world1 = historyStore world3"
  "selectionStore world1 = selectionStore world3"
  by (simp_all add: world1_def world3_def)

lemma plain_api_actions:
  "setBaseImage plain_api img p c = c\<lparr>cv_baseImage := Some img, cv_imagePath := Some p\<rparr>"
  "clearImage plain_api c = c\<lparr>cv_baseImage := None, cv_imagePath := None\<rparr>"
  "setZoom plain_api z c = c\<lparr>cv_zoom := z\<rparr>"
  "setPan plain_api x y c = c\<lparr>cv_panX := x, cv_panY := y\<rparr>"
  "restoreLayers plain_api ls a s = \<lparr>ly_layers = ls, ly_activeLayerId = a\<rparr>"
  "clearLayers plain_api s = \<lparr>ly_layers = [], ly_activeLayerId = None\<rparr>"
  "restoreState plain_api ps f d h = \<lparr>past = ps, future = f, h_isDirty = d\<rparr>"
  "reset plain_api h = \<lparr>past = [], future = [], h_isDirty = False\<rparr>"
  "clearSelection plain_api sel = None"
  by (simp_all add: plain_api_def)

text \<open>
  Claim C2. In every state of the registry (tabs and keys agree, no empty key, the
  active id is \<^verbatim>\<open>null\<close> or a key), \<^verbatim>\<open>forceCloseProject(id)\<close> removes the id from
  the mapping and from the tab sequence. If the id was active, the new active id is the
  tab at index \<^verbatim>\<open>min(tabIndex, newTabOrder.length - 1)\<close> of the new tab sequence, or
  \<^verbatim>\<open>null\<close> when no tab remains; otherwise the active id stays. The state the function
  leaves is the last of the states it passes through. When the active id does not
  change there is one such state, and it differs from the state before in the mapping
  and the tab sequence only: the four live stores are untouched. When the active id
  changes there are exactly three: the active id set to \<^verbatim>\<open>null\<close>; then the live stores
  restored from the replacement's snapshot (or cleared when there is none), with the
  active id still \<^verbatim>\<open>null\<close> and the mapping untouched by the listeners; then the new
  mapping, tab sequence and active id, the live stores being those of the second state.
  The live stores of the result are then the store actions applied to the stores
  before: the canvas store is \<^verbatim>\<open>setBaseImage\<close> (or \<^verbatim>\<open>clearImage\<close>), \<^verbatim>\<open>setZoom\<close> and
  \<^verbatim>\<open>setPan\<close> with the snapshot's values, the layer store is \<^verbatim>\<open>restoreLayers\<close> (or
  \<^verbatim>\<open>clearLayers\<close> for a snapshot without layers), the history store is \<^verbatim>\<open>restoreState\<close>
  and the selection is cleared; with no replacement they are \<^verbatim>\<open>clearImage\<close>,
  \<^verbatim>\<open>clearLayers\<close>, \<^verbatim>\<open>reset\<close> and \<^verbatim>\<open>clearSelection\<close>.
\<close>

theorem forceCloseProject_spec:
  assumes "wf_world w"
  shows
    "let newTabOrder = filter (\<lambda>tid. tid \<noteq> i) (tabOrder w);
         w' = forceCloseProject api i w;
         w1 = w\<lparr>activeProjectId := Null\<rparr>
     in Map_get (projects w') i = None \<and> i \<notin> set (tabOrder w')
      \<and> projects w' = Map_delete (projects w) i \<and> tabOrder w' = newTabOrder
      \<and> (activeProjectId w = Id i \<longrightarrow>
           activeProjectId w' =
             (if newTabOrder = [] then Null
              else Id (newTabOrder !
                         nat (min (indexOf (tabOrder w) i) (int (length newTabOrder) - 1)))))
      \<and> (activeProjectId w \<noteq> Id i \<longrightarrow> activeProjectId w' = activeProjectId w)
      \<and> w' = last (w # forceCloseProject_trace api i w)
      \<and> (activeProjectId w' = activeProjectId w \<longrightarrow>
           forceCloseProject_trace api i w = [w']
           \<and> w' = w\<lparr>projects := Map_delete (projects w) i, tabOrder := newTabOrder\<rparr>
           \<and> canvasStore w' = canvasStore w \<and> layerStore w' = layerStore w
           \<and> historyStore w' = historyStore w \<and> selectionStore w' = selectionStore w)
      \<and> (activeProjectId w' \<noteq> activeProjectId w \<longrightarrow>
           (\<exists>w2. forceCloseProject_trace api i w =
                    [w1, w2,
                     w2\<lparr>projects := Map_delete (projects w) i, tabOrder := newTabOrder,
                        activeProjectId := activeProjectId w'\<rparr>]
                \<and> w' = w2\<lparr>projects := Map_delete (projects w) i, tabOrder := newTabOrder,
                           activeProjectId := activeProjectId w'\<rparr>
                \<and> canvasStore w' = canvasStore w2 \<and> layerStore w' = layerStore w2
                \<and> historyStore w' = historyStore w2 \<and> selectionStore w' = selectionStore w2
                \<and> activeProjectId w2 = Null \<and> projects w2 = projects w
                \<and> (case activeProjectId w' of
                      Id a \<Rightarrow>
                        (\<exists>snapshot. Map_get (projects w) a = Some snapshot
                           \<and> w2 = restoreStateFromSnapshot api snapshot w1
                           \<and> canvasStore w' =
                               setPan api (panX snapshot) (panY snapshot)
                                 (setZoom api (zoom snapshot)
                                    (case baseImage snapshot of
                                       Some img \<Rightarrow>
                                         setBaseImage api img
                                           (case imagePath snapshot of None \<Rightarrow> [] | Some p \<Rightarrow> p)
                                           (canvasStore w)
                                     | None \<Rightarrow> clearImage api (canvasStore w)))
                           \<and> layerStore w' =
                               (if layers snapshot = [] then clearLayers api (layerStore w)
                                else restoreLayers api (layers snapshot) (activeLayerId snapshot)
                                       (layerStore w))
                           \<and> historyStore w' =
                               restoreState api (historyPast snapshot) (historyFuture snapshot)
                                 (isDirty snapshot) (historyStore w)
                           \<and> selectionStore w' = clearSelection api (selectionStore w))
                    | _ \<Rightarrow>
                        w2 = clearAllStores api w1
                        \<and> canvasStore w' = clearImage api (canvasStore w)
                        \<and> layerStore w' = clearLayers api (layerStore w)
                        \<and> historyStore w' = reset api (historyStore w)
                        \<and> selectionStore w' = clearSelection api (selectionStore w))))"
proof -
  let ?new = "filter (\<lambda>tid. tid \<noteq> i) (tabOrder w)"
  let ?w' = "forceCloseProject api i w"
  let ?w1 = "w\<lparr>activeProjectId := Null\<rparr>"
  let ?n = "newActiveId i w"
  let ?fin = "\<lambda>x. x\<lparr>projects := Map_delete (projects w) i, tabOrder := ?new,
                     activeProjectId := ?n\<rparr>"
  have p1: "Map_get (projects ?w') i = None"
    by (simp add: forceCloseProject_fields Map_get_delete)
  have p2: "i \<notin> set (tabOrder ?w')"
    by (simp add: forceCloseProject_fields)
  have p3: "activeProjectId w = Id i \<longrightarrow>
       activeProjectId ?w' =
         (if ?new = [] then Null
          else Id (?new ! nat (min (indexOf (tabOrder w) i) (int (length ?new) - 1))))"
    using newActiveId_when_active [OF assms, of i]
    by (simp add: forceCloseProject_fields Let_def)
  have p4: "activeProjectId w \<noteq> Id i \<longrightarrow> activeProjectId ?w' = activeProjectId w"
    using newActiveId_when_not_active [OF assms, of i]
    by (simp add: forceCloseProject_fields)
  have tie: "?w' = last (w # forceCloseProject_trace api i w)"
    by (simp add: forceCloseProject_def)
  have same: "forceCloseProject_trace api i w = [?w']
           \<and> ?w' = w\<lparr>projects := Map_delete (projects w) i, tabOrder := ?new\<rparr>
           \<and> canvasStore ?w' = canvasStore w \<and> layerStore ?w' = layerStore w
           \<and> historyStore ?w' = historyStore w \<and> selectionStore ?w' = selectionStore w"
    if eq: "?n = activeProjectId w"
  proof -
    have t: "forceCloseProject_trace api i w = [?fin w]"
      using eq by (simp add: forceCloseProject_trace_def Let_def)
    then have w': "?w' = ?fin w" by (simp add: forceCloseProject_def)
    have "?fin w = w\<lparr>projects := Map_delete (projects w) i, tabOrder := ?new\<rparr>"
      using eq by simp
    with t w' show ?thesis by simp
  qed
  have p5: "\<exists>w2. forceCloseProject_trace api i w = [?w1, w2, ?fin w2]
            \<and> ?w' = ?fin w2
            \<and> canvasStore ?w' = canvasStore w2 \<and> layerStore ?w' = layerStore w2
            \<and> historyStore ?w' = historyStore w2 \<and> selectionStore ?w' = selectionStore w2
            \<and> activeProjectId w2 = Null \<and> projects w2 = projects w
            \<and> (case ?n of
                  Id a \<Rightarrow>
                    (\<exists>snapshot. Map_get (projects w) a = Some snapshot
                       \<and> w2 = restoreStateFromSnapshot api snapshot ?w1
                       \<and> canvasStore ?w' =
                           setPan api (panX snapshot) (panY snapshot)
                             (setZoom api (zoom snapshot)
                                (case baseImage snapshot of
                                   Some img \<Rightarrow>
                                     setBaseImage api img
                                       (case imagePath snapshot of None \<Rightarrow> [] | Some p \<Rightarrow> p)
                                       (canvasStore w)
                                 | None \<Rightarrow> clearImage api (canvasStore w)))
                       \<and> layerStore ?w' =
                           (if layers snapshot = [] then clearLayers api (layerStore w)
                            else restoreLayers api (layers snapshot) (activeLayerId snapshot)
                                   (layerStore w))
                       \<and> historyStore ?w' =
                           restoreState api (historyPast snapshot) (historyFuture snapshot)
                             (isDirty snapshot) (historyStore w)
                       \<and> selectionStore ?w' = clearSelection api (selectionStore w))
                | _ \<Rightarrow>
                    w2 = clearAllStores api ?w1
                    \<and> canvasStore ?w' = clearImage api (canvasStore w)
                    \<and> layerStore ?w' = clearLayers api (layerStore w)
                    \<and> historyStore ?w' = reset api (historyStore w)
                    \<and> selectionStore ?w' = clearSelection api (selectionStore w))"
    if ch: "?n \<noteq> activeProjectId w"
  proof -
    from newActiveId_cases [OF assms, of i]
    consider "?n = Null" | a where "?n = Id a" "a \<in> set ?new" by blast
    then show ?thesis
    proof cases
      case 1
      let ?w2 = "clearAllStores api ?w1"
      have t: "forceCloseProject_trace api i w = [?w1, ?w2, ?fin ?w2]"
        using ch 1 by (simp add: forceCloseProject_trace_def Let_def)
      then have w': "?w' = ?fin ?w2" by (simp add: forceCloseProject_def)
      have a2: "activeProjectId ?w2 = Null" by (simp add: clearAll_frame)
      have pr: "projects ?w2 = projects w" by (simp add: fenced_clearAll)
      have st: "canvasStore ?w' = clearImage api (canvasStore w)"
        "layerStore ?w' = clearLayers api (layerStore w)"
        "historyStore ?w' = reset api (historyStore w)"
        "selectionStore ?w' = clearSelection api (selectionStore w)"
        "canvasStore ?w' = canvasStore ?w2" "layerStore ?w' = layerStore ?w2"
        "historyStore ?w' = historyStore ?w2" "selectionStore ?w' = selectionStore ?w2"
        unfolding w' by (simp_all add: clearAll_stores)
      show ?thesis
        apply (rule exI [of _ ?w2])
        using t w' st a2 pr 1 by simp
    next
      case 2
      from 2(2) have ai: "a \<noteq> i" and "a \<in> set (tabOrder w)" by auto
      with assms have mem: "a \<in> set (Map_keys (projects w))" and "a \<noteq> []"
        by (auto simp: wf_world_def)
      then obtain snapshot where sn: "Map_get (projects w) a = Some snapshot"
        using Map_get_None_iff [of "projects w" a] by auto
      let ?w2 = "restoreStateFromSnapshot api snapshot ?w1"
      have del: "Map_get (Map_delete (projects w) i) a = Some snapshot"
        using sn ai by (simp add: Map_get_delete)
      have t: "forceCloseProject_trace api i w = [?w1, ?w2, ?fin ?w2]"
        using ch 2(1) \<open>a \<noteq> []\<close> del by (simp add: forceCloseProject_trace_def Let_def)
      then have w': "?w' = ?fin ?w2" by (simp add: forceCloseProject_def)
      have a2: "activeProjectId ?w2 = Null" by (simp add: restore_frame)
      have pr: "projects ?w2 = projects w" by (simp add: fenced_restore)
      have st: "canvasStore ?w' =
                  setPan api (panX snapshot) (panY snapshot)
                    (setZoom api (zoom snapshot)
                       (case baseImage snapshot of
                          Some img \<Rightarrow>
                            setBaseImage api img
                              (case imagePath snapshot of None \<Rightarrow> [] | Some p \<Rightarrow> p)
                              (canvasStore w)
                        | None \<Rightarrow> clearImage api (canvasStore w)))"
        "layerStore ?w' =
           (if layers snapshot = [] then clearLayers api (layerStore w)
            else restoreLayers api (layers snapshot) (activeLayerId snapshot) (layerStore w))"
        "historyStore ?w' =
           restoreState api (historyPast snapshot) (historyFuture snapshot)
             (isDirty snapshot) (historyStore w)"
        "selectionStore ?w' = clearSelection api (selectionStore w)"
        "canvasStore ?w' = canvasStore ?w2" "layerStore ?w' = layerStore ?w2"
        "historyStore ?w' = historyStore ?w2" "selectionStore ?w' = selectionStore ?w2"
        unfolding w' by (simp_all add: restore_stores split: option.splits)
      have inner: "\<exists>sn'. Map_get (projects w) a = Some sn'
                       \<and> ?w2 = restoreStateFromSnapshot api sn' ?w1
                       \<and> canvasStore ?w' =
                           setPan api (panX sn') (panY sn')
                             (setZoom api (zoom sn')
                                (case baseImage sn' of
                                   Some img \<Rightarrow>
                                     setBaseImage api img
                                       (case imagePath sn' of None \<Rightarrow> [] | Some p \<Rightarrow> p)
                                       (canvasStore w)
                                 | None \<Rightarrow> clearImage api (canvasStore w)))
                       \<and> layerStore ?w' =
                           (if layers sn' = [] then clearLayers api (layerStore w)
                            else restoreLayers api (layers sn') (activeLayerId sn')
                                   (layerStore w))
                       \<and> historyStore ?w' =
                           restoreState api (historyPast sn') (historyFuture sn')
                             (isDirty sn') (historyStore w)
                       \<and> selectionStore ?w' = clearSelection api (selectionStore w)"
        apply (rule exI [of _ snapshot])
        using sn st by simp
      show ?thesis
        apply (rule exI [of _ ?w2])
        using t w' st(5-8) a2 pr 2(1) inner by simp
    qed
  qed
  have n': "activeProjectId ?w' = ?n" by (simp add: forceCloseProject_fields)
  have q5: "activeProjectId ?w' = activeProjectId w \<longrightarrow>
           forceCloseProject_trace api i w = [?w']
           \<and> ?w' = w\<lparr>projects := Map_delete (projects w) i, tabOrder := ?new\<rparr>
           \<and> canvasStore ?w' = canvasStore w \<and> layerStore ?w' = layerStore w
           \<and> historyStore ?w' = historyStore w \<and> selectionStore ?w' = selectionStore w"
    using same n' by simp
  have q6: "activeProjectId ?w' \<noteq> activeProjectId w \<longrightarrow> (\<exists>w2. forceCloseProject_trace api i w = [?w1, w2, ?fin w2]
            \<and> ?w' = ?fin w2
            \<and> canvasStore ?w' = canvasStore w2 \<and> layerStore ?w' = layerStore w2
            \<and> historyStore ?w' = historyStore w2 \<and> selectionStore ?w' = selectionStore w2
            \<and> activeProjectId w2 = Null \<and> projects w2 = projects w
            \<and> (case ?n of
                  Id a \<Rightarrow>
                    (\<exists>snapshot. Map_get (projects w) a = Some snapshot
                       \<and> w2 = restoreStateFromSnapshot api snapshot ?w1
                       \<and> canvasStore ?w' =
                           setPan api (panX snapshot) (panY snapshot)
                             (setZoom api (zoom snapshot)
                                (case baseImage snapshot of
                                   Some img \<Rightarrow>
                                     setBaseImage api img
                                       (case imagePath snapshot of None \<Rightarrow> [] | Some p \<Rightarrow> p)
                                       (canvasStore w)
                                 | None \<Rightarrow> clearImage api (canvasStore w)))
                       \<and> layerStore ?w' =
                           (if layers snapshot = [] then clearLayers api (layerStore w)
                            else restoreLayers api (layers snapshot) (activeLayerId snapshot)
                                   (layerStore w))
                       \<and> historyStore ?w' =
                           restoreState api (historyPast snapshot) (historyFuture snapshot)
                             (isDirty snapshot) (historyStore w)
                       \<and> selectionStore ?w' = clearSelection api (selectionStore w))
                | _ \<Rightarrow>
                    w2 = clearAllStores api ?w1
                    \<and> canvasStore ?w' = clearImage api (canvasStore w)
                    \<and> layerStore ?w' = clearLayers api (layerStore w)
                    \<and> historyStore ?w' = reset api (historyStore w)
                    \<and> selectionStore ?w' = clearSelection api (selectionStore w)))"
    using p5 n' by simp
  have f1: "projects ?w' = Map_delete (projects w) i" "tabOrder ?w' = ?new"
    by (simp_all add: forceCloseProject_fields)
  show ?thesis
    unfolding Let_def n'
    using p1 p2 p3 p4 tie q5 q6 f1 unfolding n' by blast
qed

theorem forceCloseProject_spec_witness:
  "wf_world world3 \<and> wf_world world1
   \<and> activeProjectId world3 = Id ''A''
   \<and> indexOf (tabOrder world3) ''A'' = 0
   \<and> tabOrder (forceCloseProject plain_api ''A'' world3) = [''B'', ''C'']
   \<and> projects (forceCloseProject plain_api ''A'' world3) = [(''B'', snapB), (''C'', snapC)]
   \<and> activeProjectId (forceCloseProject plain_api ''A'' world3) = Id ''B''
   \<and> forceCloseProject_trace plain_api ''A'' world3 =
       [world3\<lparr>activeProjectId := Null\<rparr>,
        restoreStateFromSnapshot plain_api snapB (world3\<lparr>activeProjectId := Null\<rparr>),
        (restoreStateFromSnapshot plain_api snapB (world3\<lparr>activeProjectId := Null\<rparr>))
          \<lparr>projects := [(''B'', snapB), (''C'', snapC)], tabOrder := [''B'', ''C''],
           activeProjectId := Id ''B''\<rparr>]
   \<and> forceCloseProject plain_api ''A'' world3 =
       (restoreStateFromSnapshot plain_api snapB (world3\<lparr>activeProjectId := Null\<rparr>))
          \<lparr>projects := [(''B'', snapB), (''C'', snapC)], tabOrder := [''B'', ''C''],
           activeProjectId := Id ''B''\<rparr>
   \<and> canvasStore world3 =
       \<lparr>cv_baseImage = Some pic, cv_imagePath = Some win_path,
        cv_zoom = 100, cv_panX = 0, cv_panY = 0\<rparr>
   \<and> historyStore world3 =
       \<lparr>past = [\<lparr>hs_layers = [], hs_activeLayerId = None\<rparr>], future = [], h_isDirty = True\<rparr>
   \<and> selectionStore world3 = Some ''rect''
   \<and> canvasStore (forceCloseProject plain_api ''A'' world3) =
       \<lparr>cv_baseImage = Some pic, cv_imagePath = Some [],
        cv_zoom = 50, cv_panX = 0, cv_panY = 0\<rparr>
   \<and> layerStore (forceCloseProject plain_api ''A'' world3) =
       \<lparr>ly_layers = [], ly_activeLayerId = None\<rparr>
   \<and> historyStore (forceCloseProject plain_api ''A'' world3) =
       \<lparr>past = [], future = [], h_isDirty = False\<rparr>
   \<and> selectionStore (forceCloseProject plain_api ''A'' world3) = None
   \<and> activeProjectId (forceCloseProject plain_api ''A'' world1) = Null
   \<and> projects (forceCloseProject plain_api ''A'' world1) = []
   \<and> tabOrder (forceCloseProject plain_api ''A'' world1) = []
   \<and> forceCloseProject_trace plain_api ''A'' world1 =
       [world1\<lparr>activeProjectId := Null\<rparr>,
        clearAllStores plain_api (world1\<lparr>activeProjectId := Null\<rparr>),
        (clearAllStores plain_api (world1\<lparr>activeProjectId := Null\<rparr>))
          \<lparr>projects := [], tabOrder := [], activeProjectId := Null\<rparr>]
   \<and> canvasStore (forceCloseProject plain_api ''A'' world1) =
       \<lparr>cv_baseImage = None, cv_imagePath = None,
        cv_zoom = 100, cv_panX = 0, cv_panY = 0\<rparr>
   \<and> layerStore (forceCloseProject plain_api ''A'' world1) =
       \<lparr>ly_layers = [], ly_activeLayerId = None\<rparr>
   \<and> historyStore (forceCloseProject plain_api ''A'' world1) =
       \<lparr>past = [], future = [], h_isDirty = False\<rparr>
   \<and> selectionStore (forceCloseProject plain_api ''A'' world1) = None
   \<and> activeProjectId (forceCloseProject plain_api ''B'' world3) = Id ''A''
   \<and> forceCloseProject_trace plain_api ''B'' world3 =
       [world3\<lparr>projects := [(''A'', snapA), (''C'', snapC)], tabOrder := [''A'', ''C'']\<rparr>]
   \<and> forceCloseProject plain_api ''B'' world3 =
       world3\<lparr>projects := [(''A'', snapA), (''C'', snapC)], tabOrder := [''A'', ''C'']\<rparr>
   \<and> canvasStore (forceCloseProject plain_api ''B'' world3) = canvasStore world3
   \<and> layerStore (forceCloseProject plain_api ''B'' world3) = layerStore world3
   \<and> historyStore (forceCloseProject plain_api ''B'' world3) = historyStore world3
   \<and> selectionStore (forceCloseProject plain_api ''B'' world3) = selectionStore world3"
proof -
  have n3: "newActiveId ''A'' world3 = Id ''B''"
    by (simp add: newActiveId_def world3_fields js_index_def)
  have n1: "newActiveId ''A'' world1 = Null"
    by (simp add: newActiveId_def world1_fields)
  have nB: "newActiveId ''B'' world3 = Id ''A''"
    by (simp add: newActiveId_def world3_fields)
  have st3: "canvasStore world3 =
       \<lparr>cv_baseImage = Some pic, cv_imagePath = Some win_path,
        cv_zoom = 100, cv_panX = 0, cv_panY = 0\<rparr>"
    "layerStore world3 = \<lparr>ly_layers = [], ly_activeLayerId = None\<rparr>"
    "historyStore world3 =
       \<lparr>past = [\<lparr>hs_layers = [], hs_activeLayerId = None\<rparr>], future = [], h_isDirty = True\<rparr>"
    "selectionStore world3 = Some ''rect''"
    by (simp_all add: world3_def)
  have restore: "tabOrder (forceCloseProject plain_api ''A'' world3) = [''B'', ''C'']
   \<and> projects (forceCloseProject plain_api ''A'' world3) = [(''B'', snapB), (''C'', snapC)]
   \<and> activeProjectId (forceCloseProject plain_api ''A'' world3) = Id ''B''
   \<and> forceCloseProject_trace plain_api ''A'' world3 =
       [world3\<lparr>activeProjectId := Null\<rparr>,
        restoreStateFromSnapshot plain_api snapB (world3\<lparr>activeProjectId := Null\<rparr>),
        (restoreStateFromSnapshot plain_api snapB (world3\<lparr>activeProjectId := Null\<rparr>))
          \<lparr>projects := [(''B'', snapB), (''C'', snapC)], tabOrder := [''B'', ''C''],
           activeProjectId := Id ''B''\<rparr>]
   \<and> forceCloseProject plain_api ''A'' world3 =
       (restoreStateFromSnapshot plain_api snapB (world3\<lparr>activeProjectId := Null\<rparr>))
          \<lparr>projects := [(''B'', snapB), (''C'', snapC)], tabOrder := [''B'', ''C''],
           activeProjectId := Id ''B''\<rparr>
   \<and> canvasStore (forceCloseProject plain_api ''A'' world3) =
       \<lparr>cv_baseImage = Some pic, cv_imagePath = Some [],
        cv_zoom = 50, cv_panX = 0, cv_panY = 0\<rparr>
   \<and> layerStore (forceCloseProject plain_api ''A'' world3) =
       \<lparr>ly_layers = [], ly_activeLayerId = None\<rparr>
   \<and> historyStore (forceCloseProject plain_api ''A'' world3) =
       \<lparr>past = [], future = [], h_isDirty = False\<rparr>
   \<and> selectionStore (forceCloseProject plain_api ''A'' world3) = None"
    using forceCloseProject_spec [OF wf_world3, where i = "''A''" and api = plain_api] n3
    by (clarsimp simp add: Let_def world3_fields forceCloseProject_fields st3
          plain_api_actions snapB_def createEmptySnapshot_def)
  have clear: "activeProjectId (forceCloseProject plain_api ''A'' world1) = Null
   \<and> projects (forceCloseProject plain_api ''A'' world1) = []
   \<and> tabOrder (forceCloseProject plain_api ''A'' world1) = []
   \<and> forceCloseProject_trace plain_api ''A'' world1 =
       [world1\<lparr>activeProjectId := Null\<rparr>,
        clearAllStores plain_api (world1\<lparr>activeProjectId := Null\<rparr>),
        (clearAllStores plain_api (world1\<lparr>activeProjectId := Null\<rparr>))
          \<lparr>projects := [], tabOrder := [], activeProjectId := Null\<rparr>]
   \<and> canvasStore (forceCloseProject plain_api ''A'' world1) =
       \<lparr>cv_baseImage = None, cv_imagePath = None,
        cv_zoom = 100, cv_panX = 0, cv_panY = 0\<rparr>
   \<and> layerStore (forceCloseProject plain_api ''A'' world1) =
       \<lparr>ly_layers = [], ly_activeLayerId = None\<rparr>
   \<and> historyStore (forceCloseProject plain_api ''A'' world1) =
       \<lparr>past = [], future = [], h_isDirty = False\<rparr>
   \<and> selectionStore (forceCloseProject plain_api ''A'' world1) = None"
    using forceCloseProject_spec [OF wf_world1, where i = "''A''" and api = plain_api] n1
    by (clarsimp simp add: Let_def world1_fields forceCloseProject_fields st3 plain_api_actions)
  have keep: "activeProjectId (forceCloseProject plain_api ''B'' world3) = Id ''A''
   \<and> forceCloseProject_trace plain_api ''B'' world3 =
       [world3\<lparr>projects := [(''A'', snapA), (''C'', snapC)], tabOrder := [''A'', ''C'']\<rparr>]
   \<and> forceCloseProject plain_api ''B'' world3 =
       world3\<lparr>projects := [(''A'', snapA), (''C'', snapC)], tabOrder := [''A'', ''C'']\<rparr>
   \<and> canvasStore (forceCloseProject plain_api ''B'' world3) = canvasStore world3
   \<and> layerStore (forceCloseProject plain_api ''B'' world3) = layerStore world3
   \<and> historyStore (forceCloseProject plain_api ''B'' world3) = historyStore world3
   \<and> selectionStore (forceCloseProject plain_api ''B'' world3) = selectionStore world3"
  proof -
    have same: "activeProjectId (forceCloseProject plain_api ''B'' world3) = activeProjectId world3"
      by (simp add: forceCloseProject_fields nB world3_fields)
    have "forceCloseProject_trace plain_api ''B'' world3 = [forceCloseProject plain_api ''B'' world3]
       \<and> forceCloseProject plain_api ''B'' world3 =
           world3\<lparr>projects := Map_delete (projects world3) ''B'',
                  tabOrder := filter (\<lambda>tid. tid \<noteq> ''B'') (tabOrder world3)\<rparr>
       \<and> canvasStore (forceCloseProject plain_api ''B'' world3) = canvasStore world3
       \<and> layerStore (forceCloseProject plain_api ''B'' world3) = layerStore world3
       \<and> historyStore (forceCloseProject plain_api ''B'' world3) = historyStore world3
       \<and> selectionStore (forceCloseProject plain_api ''B'' world3) = selectionStore world3"
      using forceCloseProject_spec [OF wf_world3, where i = "''B''" and api = plain_api] same
      unfolding Let_def by blast
    then show ?thesis
      by (simp add: world3_fields)
  qed
  have idx: "indexOf (tabOrder world3) ''A'' = 0"
    by (simp add: world3_fields)
  show ?thesis
    using restore clear keep wf_world3 wf_world1 idx st3 world3_fields(2) by blast
qed






text \<open>
  Claim C3 at a concrete input: switching from \<^verbatim>\<open>A\<close> to \<^verbatim>\<open>B\<close>, the active id is
  \<^verbatim>\<open>A\<close> after the save, \<^verbatim>\<open>B\<close> before the restore and \<^verbatim>\<open>B\<close> after it; it is never
  \<^verbatim>\<open>null\<close>. The listeners are live during the restore: the stored snapshot of
  \<^verbatim>\<open>B\<close>, whose path was \<^verbatim>\<open>null\<close>, ends with the empty path the canvas store was given.
\<close>

theorem switchProject_no_null_fence:
  "Map_get (projects world3) ''B'' = Some snapB
   \<and> imagePath snapB = None
   \<and> map activeProjectId (switchProject_trace plain_api 9 ''B'' world3) =
       [Id ''A'', Id ''B'', Id ''B'']
   \<and> Map_get (projects (switchProject plain_api 9 ''B'' world3)) ''B'' =
       Some (snapB\<lparr>imagePath := Some []\<rparr>)"
  by (simp add: switchProject_def switchProject_trace_def Let_def saveCurrentProjectState_def
      world3_def restoreStateFromSnapshot_def canvas_action_def layer_action_def
      history_action_def selection_action_def imagePath_listener_def isDirty_listener_def
      plain_api_def snapB_def snapA_def snapC_def createEmptySnapshot_def captureCurrentState_def
      win_path_def)

lemma same_path_simps:
  "same_path lc q None = False"
  "same_path lc q (Some p) = (p \<noteq> [] \<and> normalizePath lc p = normalizePath lc q)"
  by (simp_all add: same_path_def)

lemma find_stored_Cons:
  "find_stored lc (normalizePath lc q) ((i, project) # rest) =
     (if same_path lc q (imagePath project) then Some i
      else find_stored lc (normalizePath lc q) rest)"
  by (cases "imagePath project") (simp_all add: same_path_simps)

lemma find_stored_eq_find:
  "find_stored lc (normalizePath lc q) m =
     map_option fst (find (\<lambda>(i, project). same_path lc q (imagePath project)) m)"
proof (induction m)
  case Nil
  show ?case by simp
next
  case (Cons x m)
  obtain i project where x: "x = (i, project)" by (cases x)
  show ?case unfolding x find_stored_Cons using Cons.IH by simp
qed

lemma find_stored_None_iff:
  "find_stored lc (normalizePath lc q) m = None \<longleftrightarrow>
     (\<forall>(i, project) \<in> set m. \<not> same_path lc q (imagePath project))"
proof (induction m)
  case Nil
  show ?case by simp
next
  case (Cons x m)
  obtain i project where x: "x = (i, project)" by (cases x)
  show ?case unfolding x find_stored_Cons using Cons.IH by simp
qed

lemma find_stored_Some:
  "find_stored lc (normalizePath lc q) m = Some i \<Longrightarrow>
     \<exists>project. (i, project) \<in> set m \<and> same_path lc q (imagePath project)"
proof (induction m)
  case Nil
  then show ?case by simp
next
  case (Cons x m)
  obtain j project where x: "x = (j, project)" by (cases x)
  show ?case
  proof (cases "same_path lc q (imagePath project)")
    case True
    with Cons.prems have "i = j" unfolding x find_stored_Cons by simp
    with True x show ?thesis by auto
  next
    case False
    with Cons.prems have "find_stored lc (normalizePath lc q) m = Some i"
      unfolding x find_stored_Cons by simp
    from Cons.IH [OF this] show ?thesis by auto
  qed
qed

text \<open>
  Claim C8. \<^verbatim>\<open>findProjectByPath(path)\<close> compares lower-cased paths with backslashes
  turned into slashes. If a project is active and the live canvas path matches, the
  active id is returned; otherwise the result is the id of the first stored snapshot, in
  the order of the mapping, whose path matches. The result is \<^verbatim>\<open>null\<close> exactly when
  neither the live path nor any stored path matches, and a returned id always owns a
  matching path.
\<close>

theorem findProjectByPath_spec:
  "(truthy (activeProjectId w) \<and> same_path lc q (cv_imagePath (canvasStore w)) \<longrightarrow>
      (\<exists>a. activeProjectId w = Id a \<and> findProjectByPath lc q w = Some a))
   \<and> (\<not> (truthy (activeProjectId w) \<and> same_path lc q (cv_imagePath (canvasStore w))) \<longrightarrow>
        findProjectByPath lc q w =
          map_option fst (find (\<lambda>(i, project). same_path lc q (imagePath project)) (projects w)))
   \<and> (findProjectByPath lc q w = None \<longleftrightarrow>
        \<not> (truthy (activeProjectId w) \<and> same_path lc q (cv_imagePath (canvasStore w)))
        \<and> (\<forall>(i, project) \<in> set (projects w). \<not> same_path lc q (imagePath project)))
   \<and> (\<forall>i. findProjectByPath lc q w = Some i \<longrightarrow>
        (activeProjectId w = Id i \<and> same_path lc q (cv_imagePath (canvasStore w)))
        \<or> (\<exists>project. (i, project) \<in> set (projects w) \<and> same_path lc q (imagePath project)))"
proof -
  let ?live = "truthy (activeProjectId w) \<and> same_path lc q (cv_imagePath (canvasStore w))"
  let ?stored = "find_stored lc (normalizePath lc q) (projects w)"
  have live: "?live \<Longrightarrow> \<exists>a. activeProjectId w = Id a \<and> findProjectByPath lc q w = Some a"
    by (cases "activeProjectId w"; cases "cv_imagePath (canvasStore w)")
       (simp_all add: findProjectByPath_def same_path_simps Let_def)
  have nolive: "\<not> ?live \<Longrightarrow> findProjectByPath lc q w = ?stored"
    by (cases "activeProjectId w"; cases "cv_imagePath (canvasStore w)")
       (auto simp: findProjectByPath_def same_path_simps Let_def)
  have c1: "?live \<longrightarrow> (\<exists>a. activeProjectId w = Id a \<and> findProjectByPath lc q w = Some a)"
    using live by blast
  have c2: "\<not> ?live \<longrightarrow> findProjectByPath lc q w =
          map_option fst (find (\<lambda>(i, project). same_path lc q (imagePath project)) (projects w))"
    using nolive by (simp add: find_stored_eq_find)
  have c3: "findProjectByPath lc q w = None \<longleftrightarrow>
        \<not> ?live \<and> (\<forall>(i, project) \<in> set (projects w). \<not> same_path lc q (imagePath project))"
  proof (cases ?live)
    case True
    with live show ?thesis by auto
  next
    case False
    with nolive show ?thesis by (simp add: find_stored_None_iff)
  qed
  have c4: "\<forall>i. findProjectByPath lc q w = Some i \<longrightarrow>
        (activeProjectId w = Id i \<and> same_path lc q (cv_imagePath (canvasStore w)))
        \<or> (\<exists>project. (i, project) \<in> set (projects w) \<and> same_path lc q (imagePath project))"
  proof (intro allI impI)
    fix i assume r: "findProjectByPath lc q w = Some i"
    show "(activeProjectId w = Id i \<and> same_path lc q (cv_imagePath (canvasStore w)))
        \<or> (\<exists>project. (i, project) \<in> set (projects w) \<and> same_path lc q (imagePath project))"
    proof (cases ?live)
      case True
      with live r show ?thesis by auto
    next
      case False
      with nolive r have "?stored = Some i" by simp
      from find_stored_Some [OF this] show ?thesis by blast
    qed
  qed
  from c1 c2 c3 c4 show ?thesis by blast
qed

lemma normalize_win: "normalizePath ascii_toLowerCase win_path = ''c:/img/a.png''"
  by code_simp

theorem findProjectByPath_spec_witness:
  "truthy (activeProjectId world3)
   \<and> same_path ascii_toLowerCase ''c:/IMG/A.png'' (cv_imagePath (canvasStore world3))
   \<and> findProjectByPath ascii_toLowerCase ''c:/IMG/A.png'' world3 = Some ''A''
   \<and> \<not> same_path ascii_toLowerCase ''/HOME/U/C.PNG'' (cv_imagePath (canvasStore world3))
   \<and> findProjectByPath ascii_toLowerCase ''/HOME/U/C.PNG'' world3 = Some ''C''
   \<and> findProjectByPath ascii_toLowerCase ''d.png'' world3 = None"
proof -
  have cv: "cv_imagePath (canvasStore world3) = Some win_path"
    by (simp add: world3_def)
  have ip: "imagePath snapA = Some win_path" "imagePath snapB = None"
    "imagePath snapC = Some ''/home/u/c.png''"
    by (simp_all add: snapA_def snapB_def snapC_def createEmptySnapshot_def)
  have wp: "win_path \<noteq> []" by (simp add: win_path_def)
  have n1: "normalizePath ascii_toLowerCase ''c:/IMG/A.png'' = ''c:/img/a.png''"
    and n2: "normalizePath ascii_toLowerCase ''/HOME/U/C.PNG'' = ''/home/u/c.png''"
    and n3: "normalizePath ascii_toLowerCase ''/home/u/c.png'' = ''/home/u/c.png''"
    and n4: "normalizePath ascii_toLowerCase ''d.png'' = ''d.png''"
    by code_simp+
  note ev = same_path_simps cv ip wp n1 n2 n3 n4 normalize_win world3_fields
  have s1: "same_path ascii_toLowerCase ''c:/IMG/A.png'' (cv_imagePath (canvasStore world3))"
    by (simp add: ev)
  have s2: "\<not> same_path ascii_toLowerCase ''/HOME/U/C.PNG'' (cv_imagePath (canvasStore world3))"
    by (simp add: ev)
  have s3: "\<not> same_path ascii_toLowerCase ''d.png'' (cv_imagePath (canvasStore world3))"
    by (simp add: ev)
  have r1: "findProjectByPath ascii_toLowerCase ''c:/IMG/A.png'' world3 = Some ''A''"
    using findProjectByPath_spec [of world3 ascii_toLowerCase "''c:/IMG/A.png''"] s1
    by (simp add: world3_fields)
  have r2: "findProjectByPath ascii_toLowerCase ''/HOME/U/C.PNG'' world3 = Some ''C''"
    using findProjectByPath_spec [of world3 ascii_toLowerCase "''/HOME/U/C.PNG''"] s2
    by (simp add: ev)
  have r3: "findProjectByPath ascii_toLowerCase ''d.png'' world3 = None"
    using findProjectByPath_spec [of world3 ascii_toLowerCase "''d.png''"] s3
    by (simp add: ev)
  from s1 s2 r1 r2 r3 show ?thesis by (simp add: world3_fields)
qed

section \<open>The order values of the layer stack\<close>

lemma map_order_renumber: "map l_order (renumber ls) = map int [0 ..< length ls]"
  by (rule nth_equalityI) (simp_all add: renumber_def nth_enumerate_eq)

lemma length_renumber [simp]: "length (renumber ls) = length ls"
  by (simp add: renumber_def)

lemma map_id_renumber: "map l_id (renumber ls) = map l_id ls"
  by (rule nth_equalityI) (simp_all add: renumber_def nth_enumerate_eq)

lemma set_int_upt: "set (map int [0 ..< n]) = {0 ..< int n}"
proof -
  have "int ` {0 ..< n} = {0 ..< int n}"
    by (simp add: image_int_atLeastLessThan)
  then show ?thesis by simp
qed

lemma orders_ok_renumber: "orders_ok (renumber ls)"
proof -
  have "distinct (map int [0 ..< length ls])"
    by (simp add: distinct_map inj_on_def)
  then show ?thesis
    unfolding orders_ok_def map_order_renumber length_renumber
    using set_int_upt [of "length ls"] by simp
qed

lemma map_move_element:
  "from < length xs \<Longrightarrow> map f (move_element from to xs) = move_element from to (map f xs)"
  by (simp add: move_element_def Let_def take_map drop_map)

lemma distinct_move_element:
  assumes "distinct xs" "from < length xs"
  shows "distinct (move_element from to xs)"
proof -
  let ?rest = "take from xs @ drop (Suc from) xs"
  have split: "xs = take from xs @ (xs ! from) # drop (Suc from) xs"
    using assms(2) by (simp add: id_take_nth_drop)
  have "distinct (take from xs @ (xs ! from) # drop (Suc from) xs)"
    using assms(1) split by simp
  then have d: "distinct ?rest" and nin: "xs ! from \<notin> set ?rest"
    by auto
  have "distinct (take to ?rest @ drop to ?rest)"
    using d by (simp only: append_take_drop_id)
  moreover have "set (take to ?rest) \<union> set (drop to ?rest) = set ?rest"
    by (metis append_take_drop_id set_append)
  ultimately have "distinct (take to ?rest @ [xs ! from] @ drop to ?rest)"
    using nin by auto
  then show ?thesis by (simp add: move_element_def Let_def)
qed

lemma stack_ok_reorder:
  assumes "stack_ok (ly_layers s)" "reorderLayers f t s = Inr s'"
  shows "stack_ok (ly_layers s')"
proof -
  from assms(2) have rg: "0 \<le> f" "f < int (length (ly_layers s))"
    and s': "s' = s\<lparr>ly_layers := renumber (move_element (nat f) (nat t) (ly_layers s))\<rparr>"
    by (auto simp: reorderLayers_def Let_def split: if_splits)
  from rg have lt: "nat f < length (ly_layers s)" by linarith
  then have lt': "nat f < length (map l_id (ly_layers s))" by simp
  have "distinct (map l_id (ly_layers s))" using assms(1) by (simp add: stack_ok_def)
  from distinct_move_element [OF this lt']
  have "distinct (map l_id (move_element (nat f) (nat t) (ly_layers s)))"
    by (simp add: map_move_element [OF lt])
  then show ?thesis
    by (simp add: s' stack_ok_def map_id_renumber orders_ok_renumber)
qed

lemma fresh_layer_id_longer:
  "l \<in> set ls \<Longrightarrow> length (l_id l) < length (fresh_layer_id ls)"
proof -
  have "l \<in> set ls \<Longrightarrow> length (l_id l) \<le> foldr (\<lambda>l n. max (length (l_id l)) n) ls 0"
    by (induction ls) auto
  then show "l \<in> set ls \<Longrightarrow> length (l_id l) < length (fresh_layer_id ls)"
    by (simp add: fresh_layer_id_def)
qed

lemma fresh_layer_id_fresh: "fresh_layer_id ls \<notin> set (map l_id ls)"
  using fresh_layer_id_longer [of _ ls] by fastforce

lemma stack_ok_addLayer:
  assumes "stack_ok (ly_layers s)"
  shows "stack_ok (ly_layers (snd (addLayer spec s)))"
proof -
  let ?n = "length (ly_layers s)"
  have o: "set (map l_order (ly_layers s)) = {0 ..< int ?n}"
    and d: "distinct (map l_order (ly_layers s))"
    and i: "distinct (map l_id (ly_layers s))"
    using assms by (simp_all add: stack_ok_def orders_ok_def)
  have "int ?n \<notin> set (map l_order (ly_layers s))" using o by simp
  moreover have "insert (int ?n) {0 ..< int ?n} = {0 ..< int (Suc ?n)}" by auto
  ultimately show ?thesis
    using o d i fresh_layer_id_fresh [of "ly_layers s"]
    by (simp add: addLayer_def Let_def stack_ok_def orders_ok_def)
qed

lemma inj_on_close_gap: "inj_on (close_gap k) (A - {k})"
  by (auto simp: inj_on_def close_gap_def split: if_splits)

lemma image_close_gap:
  assumes "0 \<le> k" "k < n"
  shows "close_gap k ` ({0 ..< n} - {k}) = {0 ..< n - 1}"
proof (intro set_eqI iffI)
  fix x assume "x \<in> close_gap k ` ({0 ..< n} - {k})"
  then show "x \<in> {0 ..< n - 1}"
    using assms by (auto simp: close_gap_def split: if_splits)
next
  fix x assume x: "x \<in> {0 ..< n - 1}"
  show "x \<in> close_gap k ` ({0 ..< n} - {k})"
  proof (cases "x < k")
    case True
    with x have "x \<in> {0 ..< n} - {k}" "close_gap k x = x"
      by (auto simp: close_gap_def)
    then show ?thesis by force
  next
    case False
    with x have "x + 1 \<in> {0 ..< n} - {k}" "close_gap k (x + 1) = x"
      by (auto simp: close_gap_def)
    then show ?thesis by force
  qed
qed

lemma stack_ok_removeLayer:
  assumes ok: "stack_ok (ly_layers s)"
  shows "stack_ok (ly_layers (removeLayer i s))"
proof (cases "find (\<lambda>l. l_id l = i) (ly_layers s)")
  case None
  then show ?thesis using ok by (simp add: removeLayer_def)
next
  case (Some removed)
  show ?thesis
  proof (cases "l_type removed = ''base''")
    case True
    with Some ok show ?thesis by (simp add: removeLayer_def)
  next
    case False
    let ?ls = "ly_layers s"
    let ?n = "int (length ?ls)"
    let ?k = "l_order removed"
    let ?remaining = "filter (\<lambda>l. l_id l \<noteq> i) ?ls"
    let ?closed = "map (\<lambda>l. l\<lparr>l_order := close_gap ?k (l_order l)\<rparr>) ?remaining"
    have res: "ly_layers (removeLayer i s) = ?closed"
      using Some False by (simp add: removeLayer_def Let_def)
    have ids: "distinct (map l_id ?ls)" and ords: "distinct (map l_order ?ls)"
      and oset: "set (map l_order ?ls) = {0 ..< ?n}"
      using ok by (simp_all add: stack_ok_def orders_ok_def)
    from Some have rin: "removed \<in> set ?ls" and rid: "l_id removed = i"
      by (auto simp: find_Some_iff)
    have inj_id: "inj_on l_id (set ?ls)" using ids by (simp add: distinct_map)
    have inj_or: "inj_on l_order (set ?ls)" using ords by (simp add: distinct_map)
    have same: "l_id l \<noteq> i \<longleftrightarrow> l_order l \<noteq> ?k" if "l \<in> set ?ls" for l
      using that rin rid inj_id inj_or by (auto dest: inj_onD)
    have kin: "?k \<in> {0 ..< ?n}" using rin oset by force
    have rem_set: "set (map l_order ?remaining) = {0 ..< ?n} - {?k}"
    proof -
      have "set (map l_order ?remaining) = l_order ` {l \<in> set ?ls. l_order l \<noteq> ?k}"
        using same by auto
      also have "\<dots> = l_order ` set ?ls - {?k}" by auto
      finally show ?thesis using oset by simp
    qed
    have rem_dist: "distinct (map l_order ?remaining)"
      using ords by (rule distinct_map_filter)
    have "length ?remaining = card (set (map l_order ?remaining))"
      using distinct_card [OF rem_dist] by simp
    also have "\<dots> = card ({0 ..< ?n} - {?k})" by (simp only: rem_set)
    also have "\<dots> = length ?ls - 1" using kin by simp
    finally have len: "length ?remaining = length ?ls - 1" .
    have pos: "0 < length ?ls" using rin by (cases ?ls) auto
    have id_closed: "map l_id ?closed = map l_id ?remaining"
      by (simp add: comp_def)
    have or_closed: "map l_order ?closed = map (close_gap ?k) (map l_order ?remaining)"
      by (simp add: comp_def)
    have d1: "distinct (map l_id ?closed)"
      unfolding id_closed using ids by (rule distinct_map_filter)
    have d2: "distinct (map l_order ?closed)"
      unfolding or_closed
      using rem_dist inj_on_close_gap [of ?k "{0 ..< ?n}"]
      by (simp only: distinct_map [of "close_gap ?k"] rem_set)
    have "set (map l_order ?closed) = close_gap ?k ` ({0 ..< ?n} - {?k})"
      unfolding or_closed using rem_set by (simp only: set_map)
    also have "\<dots> = {0 ..< ?n - 1}"
      using kin by (intro image_close_gap) auto
    also have "?n - 1 = int (length ?closed)"
    proof -
      have "int (length ?ls - 1) = ?n - 1" using pos by linarith
      then show ?thesis using len by simp
    qed
    finally have s2: "set (map l_order ?closed) = {0 ..< int (length ?closed)}" .
    show ?thesis
      unfolding res stack_ok_def orders_ok_def using d1 d2 s2 by blast
  qed
qed

lemma stack_ok_apply_layer_op:
  assumes "stack_ok (ly_layers s)"
  shows "stack_ok (ly_layers (apply_layer_op x s))"
proof (cases x)
  case (AddLayer spec)
  then show ?thesis using stack_ok_addLayer [OF assms] by simp
next
  case (RemoveLayer i)
  then show ?thesis using stack_ok_removeLayer [OF assms] by simp
next
  case (ReorderLayers f t)
  show ?thesis
  proof (cases "reorderLayers f t s")
    case (Inl e)
    with ReorderLayers assms show ?thesis by simp
  next
    case (Inr s')
    with ReorderLayers stack_ok_reorder [OF assms Inr] show ?thesis by simp
  qed
qed

lemma stack_ok_run_layer_ops:
  "stack_ok (ly_layers s) \<Longrightarrow> stack_ok (ly_layers (run_layer_ops xs s))"
  by (induction xs arbitrary: s) (simp_all add: stack_ok_apply_layer_op)

lemma stack_ok_cleared: "stack_ok (ly_layers cleared_layers)"
  by (simp add: stack_ok_def orders_ok_def cleared_layers_def)

lemma reorder_0_2:
  assumes "ly_layers s = [a, b, c]"
  shows "reorderLayers 0 2 s =
           Inr (s\<lparr>ly_layers := [b\<lparr>l_order := 0\<rparr>, c\<lparr>l_order := 1\<rparr>, a\<lparr>l_order := 2\<rparr>]\<rparr>)"
  using assms
  by (simp add: reorderLayers_def Let_def move_element_def renumber_def enumerate_eq_zip
      upt_rec numeral_3_eq_3)

text \<open>
  Claim C9, against the layer store as the specification describes it.
  \<^verbatim>\<open>reorderLayers(0, 2)\<close> on a stack \<^verbatim>\<open>[a, b, c]\<close> yields \<^verbatim>\<open>[b, c, a]\<close> with the order
  values 0, 1, 2: the moved layer is at the target index and the two it crossed moved
  back by one. And from a stack with unique ids whose order values are
  \<^verbatim>\<open>0 .. count-1\<close>, each once (the empty stack is one), every sequence of
  \<^verbatim>\<open>addLayer\<close>, \<^verbatim>\<open>removeLayer\<close> and \<^verbatim>\<open>reorderLayers\<close> ends in a stack whose order
  values are again \<^verbatim>\<open>0 .. count-1\<close> with no duplicates.
\<close>

theorem reorderLayers_spec:
  "(ly_layers s = [a, b, c] \<longrightarrow>
      reorderLayers 0 2 s =
        Inr (s\<lparr>ly_layers := [b\<lparr>l_order := 0\<rparr>, c\<lparr>l_order := 1\<rparr>, a\<lparr>l_order := 2\<rparr>]\<rparr>))
   \<and> (stack_ok (ly_layers s0) \<longrightarrow>
        set (map l_order (ly_layers (run_layer_ops xs s0)))
          = {0 ..< int (length (ly_layers (run_layer_ops xs s0)))}
        \<and> distinct (map l_order (ly_layers (run_layer_ops xs s0))))"
proof -
  have "stack_ok (ly_layers s0) \<Longrightarrow> orders_ok (ly_layers (run_layer_ops xs s0))"
    using stack_ok_run_layer_ops [of s0 xs] by (simp add: stack_ok_def)
  then show ?thesis
    using reorder_0_2 [of s a b c] by (auto simp: orders_ok_def)
qed


theorem reorderLayers_spec_witness:
  "ly_layers \<lparr>ly_layers = [shape_layer ''A'', shape_layer ''B'', shape_layer ''C''],
               ly_activeLayerId = None\<rparr>
     = [shape_layer ''A'', shape_layer ''B'', shape_layer ''C'']
   \<and> map l_name (ly_layers (projr (reorderLayers 0 2
         \<lparr>ly_layers = [shape_layer ''A'', shape_layer ''B'', shape_layer ''C''],
          ly_activeLayerId = None\<rparr>))) = [''B'', ''C'', ''A'']
   \<and> stack_ok (ly_layers cleared_layers)
   \<and> map l_name (ly_layers (run_layer_ops
         [AddLayer (shape_layer ''Layer 1''), AddLayer (shape_layer ''Layer 2''),
          AddLayer (shape_layer ''Layer 3''), ReorderLayers 0 2] cleared_layers))
       = [''Layer 2'', ''Layer 3'', ''Layer 1'']
   \<and> map l_order (ly_layers (run_layer_ops
         [AddLayer (shape_layer ''Layer 1''), AddLayer (shape_layer ''Layer 2''),
          AddLayer (shape_layer ''Layer 3''), ReorderLayers 0 2] cleared_layers))
       = [0, 1, 2]
   \<and> set (map l_order (ly_layers (run_layer_ops
         [AddLayer (shape_layer ''Layer 1''), AddLayer (shape_layer ''Layer 2''),
          AddLayer (shape_layer ''Layer 3''), ReorderLayers 0 2, RemoveLayer ''LL'']
         cleared_layers))) = {0 ..< 2}"
proof -
  let ?s = "\<lparr>ly_layers = [shape_layer ''A'', shape_layer ''B'', shape_layer ''C''],
             ly_activeLayerId = None\<rparr>"
  let ?ops = "[AddLayer (shape_layer ''Layer 1''), AddLayer (shape_layer ''Layer 2''),
          AddLayer (shape_layer ''Layer 3''), ReorderLayers 0 2]"
  have e1: "map l_name (ly_layers (run_layer_ops ?ops cleared_layers))
       = [''Layer 2'', ''Layer 3'', ''Layer 1'']"
    by code_simp
  have e2: "map l_order (ly_layers (run_layer_ops ?ops cleared_layers)) = [0, 1, 2]"
    by code_simp
  have e3: "length (ly_layers (run_layer_ops (?ops @ [RemoveLayer ''LL'']) cleared_layers)) = 2"
    by code_simp
  have nm: "l_name (shape_layer ''A'') = ''A''" "l_name (shape_layer ''B'') = ''B''"
    "l_name (shape_layer ''C'') = ''C''"
    by (simp_all add: shape_layer_def)
  from reorderLayers_spec [of ?s "shape_layer ''A''" "shape_layer ''B''" "shape_layer ''C''"
      cleared_layers "?ops @ [RemoveLayer ''LL'']"] stack_ok_cleared e3
  have "reorderLayers 0 2 ?s = Inr (?s\<lparr>ly_layers :=
          [(shape_layer ''B'')\<lparr>l_order := 0\<rparr>, (shape_layer ''C'')\<lparr>l_order := 1\<rparr>,
           (shape_layer ''A'')\<lparr>l_order := 2\<rparr>]\<rparr>)"
    and "set (map l_order (ly_layers (run_layer_ops (?ops @ [RemoveLayer ''LL'']) cleared_layers)))
           = {0 ..< 2}"
    by simp_all
  with e1 e2 stack_ok_cleared nm show ?thesis by simp
qed

section \<open>The renderer: creating objects and the version guard\<close>

lemma process_layer_recreate:
  assumes "processingVersion s = v" "l_type l \<noteq> ''base''"
    "Map_get (editLayerObjects s) (l_id l) = None
      \<or> featherChanged (Map_get (layerFeatherCache s) (l_id l)) l"
  shows "process_layer v a l env s =
           recreate_object a l env (Map_get (editLayerObjects s) (l_id l))
             (Map_get (layerFeatherCache s) (l_id l)) s"
  using assms by (auto simp: process_layer_def Let_def)

lemma needsFeatherApply_iff:
  "needsFeatherApply cached l \<longleftrightarrow>
     truthy_text (l_originalImageData l) \<and> cached \<noteq> Some (currentFeather l)"
  by (cases cached) (auto simp: needsFeatherApply_def featherChanged_def)

lemma or_keep_truthy: "truthy_text (Some x) \<Longrightarrow> or_keep (Some x) d = x"
  by (simp add: truthy_text_def or_keep_def)

lemma load_and_replace_shape:
  "\<exists>cs. load_and_replace a l env obj img s
          = (Next, FromURL (data_url img) # cs, loaded_state l env (during_load env s))
      \<and> ApplyLayerFeathering l \<notin> set cs \<and> ApplySharpPolygonMask l \<notin> set cs"
  by (cases "load_result env")
     (auto simp: load_and_replace_def loaded_state_def Let_def place_object_def
        split: option.splits)

lemma recreate_feather:
  assumes "needsFeatherApply cached l" "0 < currentFeather l"
  shows "transform_result env = TransformRejected \<Longrightarrow>
           recreate_object a l env obj cached s
             = (Rejected, [ApplyLayerFeathering l], during_transform env s)"
    and "transform_result env = Resolved r \<Longrightarrow>
           \<exists>cs. recreate_object a l env obj cached s
             = (Next, ApplyLayerFeathering l # FromURL (data_url (or_keep r (l_imageData l))) # cs,
                loaded_state l env (during_load env (during_transform env s)))"
proof -
  show "transform_result env = TransformRejected \<Longrightarrow>
           recreate_object a l env obj cached s
             = (Rejected, [ApplyLayerFeathering l], during_transform env s)"
    using assms by (simp add: recreate_object_def)
next
  assume r: "transform_result env = Resolved r"
  from load_and_replace_shape [of a l env obj "or_keep r (l_imageData l)" "during_transform env s"]
  obtain cs where "load_and_replace a l env obj (or_keep r (l_imageData l)) (during_transform env s)
          = (Next, FromURL (data_url (or_keep r (l_imageData l))) # cs,
             loaded_state l env (during_load env (during_transform env s)))"
    by blast
  then show "\<exists>cs. recreate_object a l env obj cached s
             = (Next, ApplyLayerFeathering l # FromURL (data_url (or_keep r (l_imageData l))) # cs,
                loaded_state l env (during_load env (during_transform env s)))"
    using assms r by (simp add: recreate_object_def)
qed

lemma recreate_sharp:
  assumes "needsFeatherApply cached l" "\<not> 0 < currentFeather l" "has_polygon l"
  shows "transform_result env = TransformRejected \<Longrightarrow>
           recreate_object a l env obj cached s
             = (Rejected, [ApplySharpPolygonMask l], during_transform env s)"
    and "transform_result env = Resolved r \<Longrightarrow>
           \<exists>cs. recreate_object a l env obj cached s
             = (Next, ApplySharpPolygonMask l # FromURL (data_url (or_keep r (l_imageData l))) # cs,
                loaded_state l env (during_load env (during_transform env s)))"
proof -
  show "transform_result env = TransformRejected \<Longrightarrow>
           recreate_object a l env obj cached s
             = (Rejected, [ApplySharpPolygonMask l], during_transform env s)"
    using assms by (simp add: recreate_object_def)
next
  assume r: "transform_result env = Resolved r"
  from load_and_replace_shape [of a l env obj "or_keep r (l_imageData l)" "during_transform env s"]
  obtain cs where "load_and_replace a l env obj (or_keep r (l_imageData l)) (during_transform env s)
          = (Next, FromURL (data_url (or_keep r (l_imageData l))) # cs,
             loaded_state l env (during_load env (during_transform env s)))"
    by blast
  then show "\<exists>cs. recreate_object a l env obj cached s
             = (Next, ApplySharpPolygonMask l # FromURL (data_url (or_keep r (l_imageData l))) # cs,
                loaded_state l env (during_load env (during_transform env s)))"
    using assms r by (simp add: recreate_object_def)
qed

lemma recreate_verbatim:
  assumes "\<not> (needsFeatherApply cached l \<and> (0 < currentFeather l \<or> has_polygon l))"
  shows "\<exists>cs. recreate_object a l env obj cached s
           = (Next,
              FromURL (data_url (if needsFeatherApply cached l
                                 then or_keep (l_originalImageData l) (l_imageData l)
                                 else l_imageData l)) # cs,
              loaded_state l env (during_load env s))
         \<and> ApplyLayerFeathering l \<notin> set cs \<and> ApplySharpPolygonMask l \<notin> set cs"
proof (cases "needsFeatherApply cached l")
  case True
  with assms have "\<not> 0 < currentFeather l" "\<not> has_polygon l" by auto
  with True load_and_replace_shape
         [of a l env obj "or_keep (l_originalImageData l) (l_imageData l)" s]
  show ?thesis by (simp add: recreate_object_def)
next
  case False
  with load_and_replace_shape [of a l env obj "l_imageData l" s]
  show ?thesis by (simp add: recreate_object_def)
qed

text \<open>
  Claim C4, as the code has it. Take an iteration of a live pass on a non-base layer
  whose object must be created: there is none yet, or the cached radius differs from the
  layer's. A transform is called only when the layer has \<^verbatim>\<open>originalImageData\<close> and the
  cache does not hold the layer's radius: then feathering when the radius is positive,
  else the sharp mask when the polygon has at least three points, else no transform and
  \<^verbatim>\<open>originalImageData\<close> is loaded as it is. In every other case \<^verbatim>\<open>imageData\<close> is
  loaded as it is. After a transform the image loaded is its result, or \<^verbatim>\<open>imageData\<close>
  when it resolved to nothing. The cache entry and the object map are updated exactly
  when the load returns an image with valid dimensions; when the transform rejects, the
  load rejects or the dimensions are invalid the state is what the code that ran during
  the awaits left, so the next pass creates the object again, transform included.
\<close>

theorem recreate_object_spec:
  assumes v: "processingVersion s = v" and nb: "l_type l \<noteq> ''base''"
    and must: "Map_get (editLayerObjects s) (l_id l) = None
               \<or> featherChanged (Map_get (layerFeatherCache s) (l_id l)) l"
  shows
    "let cached = Map_get (layerFeatherCache s) (l_id l);
         needs = (truthy_text (l_originalImageData l) \<and> cached \<noteq> Some (currentFeather l));
         feather = (needs \<and> 0 < currentFeather l);
         sharp = (needs \<and> \<not> 0 < currentFeather l \<and> has_polygon l);
         st = fst (process_layer v a l env s);
         calls = fst (snd (process_layer v a l env s));
         s' = snd (snd (process_layer v a l env s));
         sT = (if feather \<or> sharp then during_transform env s else s);
         sL = during_load env sT
     in (feather \<longrightarrow> take 1 calls = [ApplyLayerFeathering l])
      \<and> (sharp \<longrightarrow> take 1 calls = [ApplySharpPolygonMask l])
      \<and> (\<not> feather \<and> \<not> sharp \<longrightarrow>
            ApplyLayerFeathering l \<notin> set calls \<and> ApplySharpPolygonMask l \<notin> set calls
            \<and> (\<forall>orig. needs \<and> l_originalImageData l = Some orig \<longrightarrow>
                  take 1 calls = [FromURL (data_url orig)])
            \<and> (\<not> needs \<longrightarrow> take 1 calls = [FromURL (data_url (l_imageData l))]))
      \<and> (\<forall>r. (feather \<or> sharp) \<and> transform_result env = Resolved r \<longrightarrow>
            take 1 (drop 1 calls) = [FromURL (data_url (or_keep r (l_imageData l)))])
      \<and> ((feather \<or> sharp) \<and> transform_result env = TransformRejected \<longrightarrow>
            st = Rejected \<and> length calls = 1 \<and> s' = sT)
      \<and> (\<not> ((feather \<or> sharp) \<and> transform_result env = TransformRejected) \<longrightarrow>
            st = Next
            \<and> (case load_result env of
                  LoadRejected \<Rightarrow> s' = sL
                | Loaded handle w h \<Rightarrow>
                    (if 0 < w \<and> 0 < h
                     then s' = sL\<lparr>editLayerObjects := Map_set (editLayerObjects sL) (l_id l) handle,
                                  layerFeatherCache :=
                                    Map_set (layerFeatherCache sL) (l_id l) (currentFeather l)\<rparr>
                     else s' = sL)))"
proof -
  let ?cached = "Map_get (layerFeatherCache s) (l_id l)"
  let ?obj = "Map_get (editLayerObjects s) (l_id l)"
  let ?needs = "truthy_text (l_originalImageData l) \<and> ?cached \<noteq> Some (currentFeather l)"
  have pl: "process_layer v a l env s = recreate_object a l env ?obj ?cached s"
    using process_layer_recreate [OF v nb must] .
  have nd: "needsFeatherApply ?cached l \<longleftrightarrow> ?needs"
    by (rule needsFeatherApply_iff)
  have ls: "\<And>sL. loaded_state l env sL =
                 (case load_result env of
                    LoadRejected \<Rightarrow> sL
                  | Loaded handle w h \<Rightarrow>
                      (if 0 < w \<and> 0 < h
                       then sL\<lparr>editLayerObjects := Map_set (editLayerObjects sL) (l_id l) handle,
                               layerFeatherCache :=
                                 Map_set (layerFeatherCache sL) (l_id l) (currentFeather l)\<rparr>
                       else sL))"
    by (simp add: loaded_state_def)
  have shape: "\<And>x. (case load_result env of
                  LoadRejected \<Rightarrow> loaded_state l env x = x
                | Loaded handle w h \<Rightarrow>
                    (if 0 < w \<and> 0 < h
                     then loaded_state l env x
                            = x\<lparr>editLayerObjects := Map_set (editLayerObjects x) (l_id l) handle,
                                 layerFeatherCache :=
                                   Map_set (layerFeatherCache x) (l_id l) (currentFeather l)\<rparr>
                     else loaded_state l env x = x))"
    by (simp add: loaded_state_def split: load_outcome.splits)
  consider (feather) "?needs" "0 < currentFeather l"
    | (sharp) "?needs" "\<not> 0 < currentFeather l" "has_polygon l"
    | (verbatim) "\<not> (needsFeatherApply ?cached l \<and> (0 < currentFeather l \<or> has_polygon l))"
    using nd by blast
  then show ?thesis
  proof cases
    case feather
    then have n: "needsFeatherApply ?cached l" using nd by simp
    show ?thesis
    proof (cases "transform_result env")
      case TransformRejected
      with recreate_feather(1) [OF n feather(2) TransformRejected, of a ?obj s] feather pl
      show ?thesis by (simp add: Let_def)
    next
      case (Resolved r)
      from recreate_feather(2) [OF n feather(2) Resolved, of a ?obj s] obtain cs where
        "recreate_object a l env ?obj ?cached s
           = (Next, ApplyLayerFeathering l # FromURL (data_url (or_keep r (l_imageData l))) # cs,
              loaded_state l env (during_load env (during_transform env s)))"
        by blast
      with feather pl Resolved shape [of "during_load env (during_transform env s)"]
      show ?thesis by (simp add: Let_def)
    qed
  next
    case sharp
    then have n: "needsFeatherApply ?cached l" using nd by simp
    show ?thesis
    proof (cases "transform_result env")
      case TransformRejected
      with recreate_sharp(1) [OF n sharp(2,3) TransformRejected, of a ?obj s] sharp pl
      show ?thesis by (simp add: Let_def)
    next
      case (Resolved r)
      from recreate_sharp(2) [OF n sharp(2,3) Resolved, of a ?obj s] obtain cs where
        "recreate_object a l env ?obj ?cached s
           = (Next, ApplySharpPolygonMask l # FromURL (data_url (or_keep r (l_imageData l))) # cs,
              loaded_state l env (during_load env (during_transform env s)))"
        by blast
      with sharp pl Resolved shape [of "during_load env (during_transform env s)"]
      show ?thesis by (simp add: Let_def)
    qed
  next
    case verbatim
    from recreate_verbatim [OF verbatim, of a env ?obj s] obtain cs where
      r: "recreate_object a l env ?obj ?cached s
           = (Next,
              FromURL (data_url (if needsFeatherApply ?cached l
                                 then or_keep (l_originalImageData l) (l_imageData l)
                                 else l_imageData l)) # cs,
              loaded_state l env (during_load env s))"
      and nt: "ApplyLayerFeathering l \<notin> set cs" "ApplySharpPolygonMask l \<notin> set cs"
      by blast
    have nf: "\<not> (?needs \<and> 0 < currentFeather l)"
      and ns: "\<not> (?needs \<and> \<not> 0 < currentFeather l \<and> has_polygon l)"
      using verbatim nd by auto
    have og: "\<And>orig. ?needs \<Longrightarrow> l_originalImageData l = Some orig
                  \<Longrightarrow> or_keep (l_originalImageData l) (l_imageData l) = orig"
      using or_keep_truthy by auto
    show ?thesis
      using r nt nf ns nd og pl shape [of "during_load env s"]
      by (auto simp: Let_def)
  qed
qed

lemmas render_eval =
  process_layer_def recreate_object_def load_and_replace_def place_object_def
  needsFeatherApply_def featherChanged_def currentFeather_def truthy_text_def or_keep_def
  has_polygon_def data_url_def Let_def
  feathered_layer_def feathered_layer_orig_def shape_layer_def scene0_def
  quiet_env_def null_transform_env_def failed_load_env_def overtaken_env_def

theorem recreate_object_spec_witness:
  "processingVersion scene0 = 1
   \<and> l_type feathered_layer_orig \<noteq> ''base''
   \<and> Map_get (editLayerObjects scene0) (l_id feathered_layer_orig) = None
   \<and> take 1 (fst (snd (process_layer 1 None feathered_layer_orig quiet_env scene0)))
       = [ApplyLayerFeathering feathered_layer_orig]
   \<and> take 1 (drop 1 (fst (snd (process_layer 1 None feathered_layer_orig quiet_env scene0))))
       = [FromURL ''data:image/png;base64,FEATHERED'']
   \<and> layerFeatherCache (snd (snd (process_layer 1 None feathered_layer_orig quiet_env scene0)))
       = [(''g1'', 5)]
   \<and> snd (snd (process_layer 1 None feathered_layer_orig failed_load_env scene0)) = scene0"
proof -
  have h1: "processingVersion scene0 = 1" by (simp add: scene0_def)
  have h2: "l_type feathered_layer_orig \<noteq> ''base''"
    by (simp add: feathered_layer_orig_def feathered_layer_def shape_layer_def)
  have h3: "Map_get (editLayerObjects scene0) (l_id feathered_layer_orig) = None"
    by (simp add: scene0_def)
  have h3': "Map_get (editLayerObjects scene0) (l_id feathered_layer_orig) = None
               \<or> featherChanged (Map_get (layerFeatherCache scene0) (l_id feathered_layer_orig))
                    feathered_layer_orig"
    using h3 by simp
  have facts: "Map_get (layerFeatherCache scene0) (l_id feathered_layer_orig) = None"
    "truthy_text (l_originalImageData feathered_layer_orig)"
    "currentFeather feathered_layer_orig = 5"
    "l_id feathered_layer_orig = ''g1''"
    "l_imageData feathered_layer_orig = ''RAW''"
    "layerFeatherCache scene0 = []" "editLayerObjects scene0 = []"
    by (simp_all add: scene0_def feathered_layer_orig_def feathered_layer_def shape_layer_def
        truthy_text_def currentFeather_def)
  have envs: "transform_result quiet_env = Resolved (Some ''FEATHERED'')"
    "load_result quiet_env = Loaded 7 10 10" "during_load quiet_env = (\<lambda>s. s)"
    "during_transform quiet_env = (\<lambda>s. s)"
    "transform_result failed_load_env = Resolved (Some ''FEATHERED'')"
    "load_result failed_load_env = LoadRejected" "during_load failed_load_env = (\<lambda>s. s)"
    "during_transform failed_load_env = (\<lambda>s. s)"
    by (simp_all add: quiet_env_def failed_load_env_def)
  have du: "data_url (or_keep (Some ''FEATHERED'') ''RAW'') = ''data:image/png;base64,FEATHERED''"
    by (simp add: data_url_def or_keep_def)
  from recreate_object_spec [OF h1 h2 h3', of None quiet_env]
  have a: "take 1 (fst (snd (process_layer 1 None feathered_layer_orig quiet_env scene0)))
             = [ApplyLayerFeathering feathered_layer_orig]"
    and b: "take 1 (drop 1 (fst (snd (process_layer 1 None feathered_layer_orig quiet_env scene0))))
             = [FromURL ''data:image/png;base64,FEATHERED'']"
    and c: "layerFeatherCache (snd (snd (process_layer 1 None feathered_layer_orig quiet_env scene0)))
             = [(''g1'', 5)]"
    by (simp_all add: Let_def facts envs du)
  from recreate_object_spec [OF h1 h2 h3', of None failed_load_env]
  have d: "snd (snd (process_layer 1 None feathered_layer_orig failed_load_env scene0)) = scene0"
    by (simp add: Let_def facts envs)
  from h1 h2 h3 a b c d show ?thesis by blast
qed

text \<open>
  Claim C4 as stated fails. A layer with radius 5 and no \<^verbatim>\<open>originalImageData\<close>
  whose object is created: feathering is not called. A feathering that resolves to
  nothing: \<^verbatim>\<open>imageData\<close> is loaded instead, the cache takes the radius, and the next
  pass only positions the object; the transform is not tried again. And a layer with
  radius 5 and \<^verbatim>\<open>originalImageData\<close> whose object is gone while the cache still holds
  5 (its object was removed with the layer, and the layer came back): the object is
  created from \<^verbatim>\<open>imageData\<close> and feathering is not called.
\<close>

theorem transform_skipped_or_accepted:
  "l_featherRadius feathered_layer = Some 5
   \<and> Map_get (editLayerObjects scene0) (l_id feathered_layer) = None
   \<and> process_layer 1 None feathered_layer quiet_env scene0
       = (Next,
          [FromURL ''data:image/png;base64,RAW'', CanvasAdd 7, ObjectSet 7 feathered_layer],
          scene0\<lparr>editLayerObjects := [(''g1'', 7)], layerFeatherCache := [(''g1'', 5)]\<rparr>)
   \<and> process_layer 1 None feathered_layer_orig null_transform_env scene0
       = (Next,
          [ApplyLayerFeathering feathered_layer_orig, FromURL ''data:image/png;base64,RAW'',
           CanvasAdd 7, ObjectSet 7 feathered_layer_orig],
          scene0\<lparr>editLayerObjects := [(''g1'', 7)], layerFeatherCache := [(''g1'', 5)]\<rparr>)
   \<and> process_layer 1 None feathered_layer_orig quiet_env
         (scene0\<lparr>editLayerObjects := [(''g1'', 7)], layerFeatherCache := [(''g1'', 5)]\<rparr>)
       = (Next, [ObjectSet 7 feathered_layer_orig],
          scene0\<lparr>editLayerObjects := [(''g1'', 7)], layerFeatherCache := [(''g1'', 5)]\<rparr>)
   \<and> l_originalImageData feathered_layer_orig = Some ''ORIG''
   \<and> process_layer 1 None feathered_layer_orig quiet_env
         (scene0\<lparr>layerFeatherCache := [(''g1'', 5)]\<rparr>)
       = (Next,
          [FromURL ''data:image/png;base64,RAW'', CanvasAdd 7, ObjectSet 7 feathered_layer_orig],
          scene0\<lparr>editLayerObjects := [(''g1'', 7)], layerFeatherCache := [(''g1'', 5)]\<rparr>)"
  by (simp add: render_eval)













end
